theory Spec2Isabelle
  imports Main
begin

section \<open>Values shared by the whole program\<close>

text \<open>
  Go's \<open>time.Time\<close> is read as the number of nanoseconds since the zero time
  (January 1, year 1, 00:00 UTC); the zero \<open>time.Time\<close> is 0. A \<open>time.Duration\<close>
  is a signed 64-bit count of nanoseconds; \<open>Time.Sub\<close> saturates at the two ends of
  that range, as the standard library documents.
\<close>

type_synonym Time = int
type_synonym Duration = int

definition maxDuration :: Duration where
  "maxDuration = 2 ^ 63 - 1"

definition minDuration :: Duration where
  "minDuration = - (2 ^ 63)"

definition Second :: Duration where
  "Second = 1000000000"

definition Minute :: Duration where
  "Minute = 60 * Second"

definition Hour :: Duration where
  "Hour = 60 * Minute"

definition Sub :: "Time \<Rightarrow> Time \<Rightarrow> Duration" where
  "Sub t u =
     (let d = t - u
      in if d > maxDuration then maxDuration
         else if d < minDuration then minDuration
         else d)"

text \<open>\<open>time.Since(t)\<close> is \<open>time.Now().Sub(t)\<close>; the clock reading is an argument.\<close>

definition Since :: "Time \<Rightarrow> Time \<Rightarrow> Duration" where
  "Since now t = Sub now t"

text \<open>
  An \<open>error\<close> value is either a plain message or the result of
  \<open>fmt.Errorf(prefix + "%w", cause)\<close>, which keeps the cause it wraps. \<open>None\<close> of
  type \<open>error option\<close> is Go's \<open>nil\<close> error.
\<close>

datatype error = ErrorString string | Errorf string error

fun Error :: "error \<Rightarrow> string" where
  "Error (ErrorString s) = s"
| "Error (Errorf p e) = p @ Error e"

text \<open>A run-time panic of the Go program.\<close>

datatype panic = IndexOutOfRange | SliceBoundsOutOfRange | NilDereference

text \<open>Indexing a slice: Go panics outside \<open>0 \<le> i < len(xs)\<close>.\<close>

definition index :: "'a list \<Rightarrow> int \<Rightarrow> panic + 'a" where
  "index xs i =
     (if 0 \<le> i \<and> i < int (length xs) then Inr (xs ! nat i) else Inl IndexOutOfRange)"


text \<open>
  \<open>len(xs)\<close> as a Go \<open>int\<close>. Values of type \<open>int\<close> are integers here: what the
  program computes with them (an index plus or minus one, a terminal size minus a margin,
  a length) stays inside 64 bits. The one product that can leave them, the refresh
  interval in nanoseconds, has its wrap-around written out in \<open>NewModel\<close>.
\<close>

definition len :: "'a list \<Rightarrow> int" where
  "len xs = int (length xs)"

section \<open>Package azuredevops: the records the client returns\<close>

record User =
  DisplayName :: string
  UniqueName :: string

record Project =
  Project_Name :: string

record Repository =
  Repository_Name :: string
  Repository_Project :: Project

record PullRequest =
  PR_ID :: int
  Title :: string
  Description :: string
  PR_Status :: string
  CreatedBy :: User
  CreationDate :: Time
  PR_Repository :: Repository
  SourceRefName :: string
  TargetRefName :: string
  IsDraft :: bool

record Definition =
  Definition_ID :: int
  Definition_Name :: string

record Build =
  Build_ID :: int
  BuildNumber :: string
  Build_Status :: string
  Build_Result :: string
  QueueTime :: Time
  StartTime :: Time
  FinishTime :: Time
  SourceBranch :: string
  Build_Definition :: Definition
  RequestedFor :: User

record BuildLog =
  BuildLog_ID :: int
  BuildLog_Type :: string
  BuildLog_URL :: string

section \<open>Package config\<close>

record PullRequestConfig =
  PRC_Project :: string
  PRC_Repository :: string

record PipelineConfig =
  PC_Project :: string
  PC_Pipeline :: string
  PC_DefinitionID :: int

record Config =
  Organization :: string
  PullRequests :: "PullRequestConfig list"
  Pipelines :: "PipelineConfig list"
  RefreshInterval :: int

text \<open>
  The client's five calls, as the user interface consumes them: each returns a value or
  an error. The HTTP exchange behind them is outside the user interface, so the calls
  are arguments of the commands below.
\<close>

record Client =
  GetPullRequests :: "string \<Rightarrow> string \<Rightarrow> error + PullRequest list"
  GetBuilds :: "string \<Rightarrow> string \<Rightarrow> int \<Rightarrow> error + Build list"
  GetPRFiles :: "string \<Rightarrow> string \<Rightarrow> int \<Rightarrow> error + string list"
  GetPRFileDiff :: "string \<Rightarrow> string \<Rightarrow> int \<Rightarrow> string \<Rightarrow> error + string"
  GetBuildLogs :: "string \<Rightarrow> int \<Rightarrow> error + BuildLog list"
  GetBuildLogContent :: "string \<Rightarrow> int \<Rightarrow> int \<Rightarrow> error + string"


section \<open>Package ui: messages, commands and the model\<close>

text \<open>Text helpers: the newline byte and \<open>fmt.Sprintf("%d", n)\<close>.\<close>

abbreviation nl :: char where
  "nl \<equiv> CHR 0x0A"

definition digitChar :: "nat \<Rightarrow> char" where
  "digitChar d = ''0123456789'' ! d"

fun digits :: "nat \<Rightarrow> string" where
  "digits n =
     (if n < 10 then [digitChar n]
      else digits (n div 10) @ [digitChar (n mod 10)])"

declare digits.simps [simp del]

definition itoa :: "int \<Rightarrow> string" where
  "itoa i = (if i < 0 then CHR ''-'' # digits (nat (- i)) else digits (nat i))"

text \<open>Go's \<open>%\<close> on \<open>int\<close> truncates towards zero.\<close>

definition go_rem :: "int \<Rightarrow> int \<Rightarrow> int" where
  "go_rem a b = sgn a * (\<bar>a\<bar> mod \<bar>b\<bar>)"

datatype View = ViewDashboard | ViewPRDetails | ViewPRFiles | ViewFileDiff | ViewBuildLogs

text \<open>
  The messages \<open>Update\<close> switches on. \<open>KeyMsg\<close> carries \<open>msg.String()\<close>;
  \<open>OtherMsg\<close> stands for every message type the switch has no case for. The last
  argument of a completion message is its \<open>err\<close> field.
\<close>

datatype Msg =
    WindowSizeMsg int int
  | KeyMsg string
  | TickMsg Time
  | DataLoadedMsg "PullRequest list" "Build list" "error option"
  | FilesLoadedMsg "string list" "error option"
  | DiffLoadedMsg string string "error option"
  | LogsLoadedMsg string "error option"
  | OtherMsg string

text \<open>
  A \<open>tea.Cmd\<close> is a closure run outside the message loop. The model keeps which
  closure it is and what it captured; \<open>ChildCmd\<close> is a command returned by a widget of
  the bubbles library. \<open>tea.Batch\<close> of several commands is their list, \<open>nil\<close>
  commands dropped, so the empty list is "no command".
\<close>

datatype 'c Cmd =
    Quit
  | LoadData
  | TickCmd
  | LoadPRFiles PullRequest
  | LoadFileDiff PullRequest string
  | LoadBuildLogs Build
  | OpenBuildURL
  | OpenPRURL
  | ClonePRRepo
  | ChildCmd 'c

datatype Item = PrItem PullRequest | BuildItem Build | FileItem string

text \<open>
  A \<open>viewport.Model\<close> has two exported fields the program assigns, and a state of its
  own (\<open>'v\<close>).
\<close>

record 'v viewport_Model =
  Width :: int
  Height :: int
  vp_state :: 'v

text \<open>
  The operations of the bubbles widgets (\<open>list.Model\<close> with state \<open>'l\<close>,
  \<open>viewport.Model\<close>) that the program calls: third-party code, so they are
  arguments of \<open>Update\<close>. So is the program's \<open>formatDiff\<close>, whose result is
  only the text handed to the diff viewport: the diff with the colours of lipgloss and of
  the chroma lexers, two libraries more.
\<close>

record ('l, 'v, 'c) Bubbles =
  list_New :: "string \<Rightarrow> 'l"
  list_SetItems :: "Item list \<Rightarrow> 'l \<Rightarrow> 'l"
  list_SetSize :: "int \<Rightarrow> int \<Rightarrow> 'l \<Rightarrow> 'l"
  list_Index :: "'l \<Rightarrow> int"
  list_Update :: "Msg \<Rightarrow> 'l \<Rightarrow> 'l \<times> 'c option"
  viewport_New :: "int \<Rightarrow> int \<Rightarrow> 'v viewport_Model"
  viewport_SetContent :: "string \<Rightarrow> 'v viewport_Model \<Rightarrow> 'v viewport_Model"
  viewport_Update :: "Msg \<Rightarrow> 'v viewport_Model \<Rightarrow> 'v viewport_Model \<times> 'c option"
  formatDiff :: "string \<Rightarrow> string \<Rightarrow> string"

text \<open>
  The state of the program. Its \<open>client\<close> field, the pointer to the HTTP client, is
  not part of the record: the commands that use it take the client as an argument.
\<close>

record ('l, 'v) Model =
  config :: Config
  view :: View
  pullRequests :: "PullRequest list"
  builds :: "Build list"
  prList :: 'l
  buildList :: 'l
  fileList :: 'l
  diffViewport :: "'v viewport_Model"
  logsViewport :: "'v viewport_Model"
  prDetailsViewport :: "'v viewport_Model"
  selectedPR :: "PullRequest option"
  selectedBuild :: "Build option"
  selectedBuildProject :: string
  prFiles :: "string list"
  currentDiff :: string
  currentFilePath :: string
  buildLogs :: string
  loading :: bool
  loadingLogs :: bool
  err :: "error option"
  lastUpdate :: Time
  autoRefresh :: bool
  refreshInterval :: Duration
  width :: int
  height :: int
  activeTab :: int

text \<open>Signed 64-bit wrap-around of a product, for \<open>time.Duration(n) * time.Second\<close>.\<close>

definition wrap64 :: "int \<Rightarrow> int" where
  "wrap64 x = (x + 2 ^ 63) mod 2 ^ 64 - 2 ^ 63"

definition NewModel :: "('l, 'v, 'c) Bubbles \<Rightarrow> Config \<Rightarrow> ('l, 'v) Model" where
  "NewModel B cfg =
     \<lparr> config = cfg,
       view = ViewDashboard,
       pullRequests = [],
       builds = [],
       prList = list_New B ''Pull Requests'',
       buildList = list_New B ''Pipeline Builds'',
       fileList = list_New B ''Changed Files'',
       diffViewport = viewport_New B 0 0,
       logsViewport = viewport_New B 0 0,
       prDetailsViewport = viewport_New B 0 0,
       selectedPR = None,
       selectedBuild = None,
       selectedBuildProject = [],
       prFiles = [],
       currentDiff = [],
       currentFilePath = [],
       buildLogs = [],
       loading = True,
       loadingLogs = False,
       err = None,
       lastUpdate = 0,
       autoRefresh = True,
       refreshInterval = wrap64 (RefreshInterval cfg * Second),
       width = 0,
       height = 0,
       activeTab = 0 \<rparr>"

definition Init :: "'c Cmd list" where
  "Init = [LoadData, TickCmd]"

subsection \<open>The background commands\<close>

text \<open>
  \<open>loadData\<close>: the two loops over the configured pairs. A failing pair overwrites
  \<open>lastErr\<close> and the loop continues with the next pair.
\<close>

fun loadData_PRs ::
  "Client \<Rightarrow> PullRequestConfig list \<Rightarrow> PullRequest list \<Rightarrow> error option
     \<Rightarrow> PullRequest list \<times> error option" where
  "loadData_PRs c [] allPRs lastErr = (allPRs, lastErr)"
| "loadData_PRs c (prConfig # rest) allPRs lastErr =
     (case GetPullRequests c (PRC_Project prConfig) (PRC_Repository prConfig) of
        Inl e \<Rightarrow>
          loadData_PRs c rest allPRs
            (Some (Errorf (''failed to load PRs for '' @ PRC_Project prConfig @ ''/''
                             @ PRC_Repository prConfig @ '': '') e))
      | Inr prs \<Rightarrow> loadData_PRs c rest (allPRs @ prs) lastErr)"

definition pipelineIdentifier :: "PipelineConfig \<Rightarrow> string" where
  "pipelineIdentifier pipelineConfig =
     (if PC_DefinitionID pipelineConfig > 0 then ''ID:'' @ itoa (PC_DefinitionID pipelineConfig)
      else PC_Pipeline pipelineConfig)"

fun loadData_Builds ::
  "Client \<Rightarrow> PipelineConfig list \<Rightarrow> Build list \<Rightarrow> error option
     \<Rightarrow> Build list \<times> error option" where
  "loadData_Builds c [] allBuilds lastErr = (allBuilds, lastErr)"
| "loadData_Builds c (pipelineConfig # rest) allBuilds lastErr =
     (case GetBuilds c (PC_Project pipelineConfig) (PC_Pipeline pipelineConfig)
             (PC_DefinitionID pipelineConfig) of
        Inl e \<Rightarrow>
          loadData_Builds c rest allBuilds
            (Some (Errorf (''failed to load builds for '' @ PC_Project pipelineConfig @ ''/''
                             @ pipelineIdentifier pipelineConfig @ '': '') e))
      | Inr bs \<Rightarrow> loadData_Builds c rest (allBuilds @ bs) lastErr)"

definition loadData :: "Config \<Rightarrow> Client \<Rightarrow> Msg" where
  "loadData cfg c =
     (case loadData_PRs c (PullRequests cfg) [] None of
        (allPRs, lastErr) \<Rightarrow>
          (case loadData_Builds c (Pipelines cfg) [] lastErr of
             (allBuilds, lastErr') \<Rightarrow> DataLoadedMsg allPRs allBuilds lastErr'))"

definition loadPRFiles :: "Client \<Rightarrow> PullRequest \<Rightarrow> Msg" where
  "loadPRFiles c pr =
     (case GetPRFiles c (Project_Name (Repository_Project (PR_Repository pr)))
             (Repository_Name (PR_Repository pr)) (PR_ID pr) of
        Inl e \<Rightarrow> FilesLoadedMsg [] (Some (Errorf ''failed to load PR files: '' e))
      | Inr files \<Rightarrow> FilesLoadedMsg files None)"

definition loadFileDiff :: "Client \<Rightarrow> PullRequest \<Rightarrow> string \<Rightarrow> Msg" where
  "loadFileDiff c pr filePath =
     (case GetPRFileDiff c (Project_Name (Repository_Project (PR_Repository pr)))
             (Repository_Name (PR_Repository pr)) (PR_ID pr) filePath of
        Inl e \<Rightarrow> DiffLoadedMsg [] [] (Some (Errorf ''failed to load file diff: '' e))
      | Inr diff \<Rightarrow> DiffLoadedMsg diff filePath None)"

fun loadBuildLogs_content ::
  "Client \<Rightarrow> string \<Rightarrow> int \<Rightarrow> BuildLog list \<Rightarrow> string \<Rightarrow> string" where
  "loadBuildLogs_content c project buildID [] logs = logs"
| "loadBuildLogs_content c project buildID (log # rest) logs =
     (case GetBuildLogContent c project buildID (BuildLog_ID log) of
        Inl e \<Rightarrow> loadBuildLogs_content c project buildID rest logs
      | Inr content \<Rightarrow>
          loadBuildLogs_content c project buildID rest
            (logs @ ''=== Log '' @ itoa (BuildLog_ID log) @ '' ==='' @ [nl] @ content @ [nl, nl]))"

fun loadBuildLogs_loop ::
  "Client \<Rightarrow> Build \<Rightarrow> PipelineConfig list \<Rightarrow> string \<Rightarrow> error option \<Rightarrow> Msg" where
  "loadBuildLogs_loop c build [] logs lastErr =
     (case lastErr of
        Some e \<Rightarrow> LogsLoadedMsg [] (Some (Errorf ''failed to load build logs: '' e))
      | None \<Rightarrow> LogsLoadedMsg ''No logs available for this build'' None)"
| "loadBuildLogs_loop c build (pipelineConfig # rest) logs lastErr =
     (case GetBuildLogs c (PC_Project pipelineConfig) (Build_ID build) of
        Inl e \<Rightarrow> loadBuildLogs_loop c build rest logs (Some e)
      | Inr buildLogs' \<Rightarrow>
          (let logs' = loadBuildLogs_content c (PC_Project pipelineConfig) (Build_ID build)
                         buildLogs' logs
           in if logs' \<noteq> [] then LogsLoadedMsg logs' None
              else loadBuildLogs_loop c build rest logs' lastErr))"

definition loadBuildLogs :: "Config \<Rightarrow> Client \<Rightarrow> Build \<Rightarrow> Msg" where
  "loadBuildLogs cfg c build = loadBuildLogs_loop c build (Pipelines cfg) [] None"


subsection \<open>Update\<close>

definition updateSizes :: "('l, 'v, 'c) Bubbles \<Rightarrow> ('l, 'v) Model \<Rightarrow> ('l, 'v) Model" where
  "updateSizes B m =
     (let listHeight = (if height m - 10 < 10 then 10 else height m - 10)
      in m\<lparr> prList := list_SetSize B (width m - 4) listHeight (prList m),
            buildList := list_SetSize B (width m - 4) listHeight (buildList m),
            fileList := list_SetSize B (width m - 4) listHeight (fileList m),
            diffViewport := (diffViewport m)\<lparr> Width := width m - 4, Height := height m - 6 \<rparr>,
            logsViewport := (logsViewport m)\<lparr> Width := width m - 4, Height := height m - 6 \<rparr>,
            prDetailsViewport :=
              (prDetailsViewport m)\<lparr> Width := width m - 4, Height := height m - 8 \<rparr> \<rparr>)"

definition updateLists :: "('l, 'v, 'c) Bubbles \<Rightarrow> ('l, 'v) Model \<Rightarrow> ('l, 'v) Model" where
  "updateLists B m =
     m\<lparr> prList := list_SetItems B (map PrItem (pullRequests m)) (prList m),
        buildList := list_SetItems B (map BuildItem (builds m)) (buildList m) \<rparr>"

definition updateFileList :: "('l, 'v, 'c) Bubbles \<Rightarrow> ('l, 'v) Model \<Rightarrow> ('l, 'v) Model" where
  "updateFileList B m = m\<lparr> fileList := list_SetItems B (map FileItem (prFiles m)) (fileList m) \<rparr>"

text \<open>
  \<open>handleEnter\<close>. \<open>m.selectedPR = &m.pullRequests[idx]\<close> takes the address of a slice
  element; no slice is ever written to in place (a refresh assigns a new slice), so the
  pointer is modelled by the element's value and \<open>nil\<close> by \<open>None\<close>. Each index
  expression goes through \<open>index\<close>, so an unguarded one would surface as \<open>Inl\<close>.
\<close>

definition handleEnter ::
  "('l, 'v, 'c) Bubbles \<Rightarrow> ('l, 'v) Model \<Rightarrow> panic + (('l, 'v) Model \<times> 'c Cmd list)" where
  "handleEnter B m =
     (case view m of
        ViewDashboard \<Rightarrow>
          if activeTab m = 0 \<and> len (pullRequests m) > 0 then
            (let idx = list_Index B (prList m)
             in if idx \<ge> 0 \<and> idx < len (pullRequests m) then
                  (case index (pullRequests m) idx of
                     Inl p \<Rightarrow> Inl p
                   | Inr pr \<Rightarrow> Inr (m\<lparr> selectedPR := Some pr, view := ViewPRDetails \<rparr>, []))
                else Inr (m, []))
          else if activeTab m = 1 \<and> len (builds m) > 0 then
            (let idx = list_Index B (buildList m)
             in if idx \<ge> 0 \<and> idx < len (builds m) then
                  (case index (builds m) idx of
                     Inl p \<Rightarrow> Inl p
                   | Inr b \<Rightarrow>
                       Inr (m\<lparr> selectedBuild := Some b, loadingLogs := True \<rparr>, [LoadBuildLogs b]))
                else Inr (m, []))
          else Inr (m, [])
      | ViewPRDetails \<Rightarrow>
          (case selectedPR m of
             Some pr \<Rightarrow> Inr (m, [LoadPRFiles pr])
           | None \<Rightarrow> Inr (m, []))
      | ViewPRFiles \<Rightarrow>
          if len (prFiles m) > 0 then
            (let idx = list_Index B (fileList m)
             in if idx \<ge> 0 \<and> idx < len (prFiles m) \<and> selectedPR m \<noteq> None then
                  (case index (prFiles m) idx of
                     Inl p \<Rightarrow> Inl p
                   | Inr filePath \<Rightarrow>
                       (case selectedPR m of
                          None \<Rightarrow> Inl NilDereference
                        | Some pr \<Rightarrow> Inr (m, [LoadFileDiff pr filePath])))
                else Inr (m, []))
          else Inr (m, [])
      | ViewFileDiff \<Rightarrow> Inr (m, [])
      | ViewBuildLogs \<Rightarrow> Inr (m, []))"

text \<open>
  The tail of \<open>Update\<close>: the message is handed to the widget of the current view, and
  the widget's command joins the batch.
\<close>

definition updateActive ::
  "('l, 'v, 'c) Bubbles \<Rightarrow> Msg \<Rightarrow> ('l, 'v) Model \<Rightarrow> ('l, 'v) Model \<times> 'c option" where
  "updateActive B msg m =
     (case view m of
        ViewDashboard \<Rightarrow>
          if activeTab m = 0 then
            (case list_Update B msg (prList m) of (l, cmd) \<Rightarrow> (m\<lparr> prList := l \<rparr>, cmd))
          else
            (case list_Update B msg (buildList m) of (l, cmd) \<Rightarrow> (m\<lparr> buildList := l \<rparr>, cmd))
      | ViewPRDetails \<Rightarrow>
          (case viewport_Update B msg (prDetailsViewport m) of
             (v, cmd) \<Rightarrow> (m\<lparr> prDetailsViewport := v \<rparr>, cmd))
      | ViewPRFiles \<Rightarrow>
          (case list_Update B msg (fileList m) of (l, cmd) \<Rightarrow> (m\<lparr> fileList := l \<rparr>, cmd))
      | ViewFileDiff \<Rightarrow>
          (case viewport_Update B msg (diffViewport m) of
             (v, cmd) \<Rightarrow> (m\<lparr> diffViewport := v \<rparr>, cmd))
      | ViewBuildLogs \<Rightarrow>
          (case viewport_Update B msg (logsViewport m) of
             (v, cmd) \<Rightarrow> (m\<lparr> logsViewport := v \<rparr>, cmd)))"

definition batch :: "'c Cmd list \<Rightarrow> 'c option \<Rightarrow> 'c Cmd list" where
  "batch cmds cmd = cmds @ (case cmd of None \<Rightarrow> [] | Some c \<Rightarrow> [ChildCmd c])"

definition finish ::
  "('l, 'v, 'c) Bubbles \<Rightarrow> Msg \<Rightarrow> 'c Cmd list \<Rightarrow> ('l, 'v) Model
     \<Rightarrow> panic + (('l, 'v) Model \<times> 'c Cmd list)" where
  "finish B msg cmds m =
     (case updateActive B msg m of (m', cmd) \<Rightarrow> Inr (m', batch cmds cmd))"

text \<open>The \<open>"h"\<close>/\<open>"left"\<close> case: one step back along the chain of views.\<close>

definition goBack :: "('l, 'v) Model \<Rightarrow> ('l, 'v) Model" where
  "goBack m =
     (case view m of
        ViewPRDetails \<Rightarrow> m\<lparr> view := ViewDashboard, err := None \<rparr>
      | ViewPRFiles \<Rightarrow> m\<lparr> view := ViewPRDetails, err := None \<rparr>
      | ViewFileDiff \<Rightarrow> m\<lparr> view := ViewPRFiles, err := None \<rparr>
      | ViewBuildLogs \<Rightarrow> m\<lparr> view := ViewDashboard, err := None \<rparr>
      | ViewDashboard \<Rightarrow> m)"

definition updateKey ::
  "('l, 'v, 'c) Bubbles \<Rightarrow> string \<Rightarrow> ('l, 'v) Model
     \<Rightarrow> panic + (('l, 'v) Model \<times> 'c Cmd list)" where
  "updateKey B k m =
     (if k = ''ctrl+c'' \<or> k = ''q'' then Inr (m, [Quit])
      else if k = ''r'' then Inr (m\<lparr> loading := True \<rparr>, [LoadData])
      else if k = ''tab'' then
        finish B (KeyMsg k) []
          (if view m = ViewDashboard then m\<lparr> activeTab := go_rem (activeTab m + 1) 2 \<rparr> else m)
      else if k = ''enter'' then handleEnter B m
      else if k = ''h'' \<or> k = ''left'' then finish B (KeyMsg k) [] (goBack m)
      else if k = ''g'' then
        (if view m = ViewBuildLogs \<and> selectedBuild m \<noteq> None then Inr (m, [OpenBuildURL])
         else if view m = ViewPRDetails \<and> selectedPR m \<noteq> None then Inr (m, [OpenPRURL])
         else finish B (KeyMsg k) [] m)
      else if k = ''c'' then
        (if view m = ViewPRDetails \<and> selectedPR m \<noteq> None then Inr (m, [ClonePRRepo])
         else finish B (KeyMsg k) [] m)
      else finish B (KeyMsg k) [] m)"

text \<open>
  \<open>Update\<close>, with the clock reading \<open>now\<close> that \<open>time.Now()\<close> and \<open>time.Since\<close>
  return while the message is applied.
\<close>

definition Update ::
  "('l, 'v, 'c) Bubbles \<Rightarrow> Time \<Rightarrow> Msg \<Rightarrow> ('l, 'v) Model
     \<Rightarrow> panic + (('l, 'v) Model \<times> 'c Cmd list)" where
  "Update B now msg m =
     (case msg of
        WindowSizeMsg w h \<Rightarrow> finish B msg [] (updateSizes B (m\<lparr> width := w, height := h \<rparr>))
      | KeyMsg k \<Rightarrow> updateKey B k m
      | TickMsg t \<Rightarrow>
          finish B msg
            ((if autoRefresh m \<and> Since now (lastUpdate m) \<ge> refreshInterval m then [LoadData]
              else []) @ [TickCmd])
            m
      | DataLoadedMsg prs bs e \<Rightarrow>
          finish B msg []
            (let m1 = m\<lparr> loading := False, lastUpdate := now \<rparr>
             in case e of
                  Some e' \<Rightarrow> m1\<lparr> err := Some e' \<rparr>
                | None \<Rightarrow> updateLists B (m1\<lparr> pullRequests := prs, builds := bs \<rparr>))
      | FilesLoadedMsg files e \<Rightarrow>
          finish B msg []
            (case e of
               Some e' \<Rightarrow> m\<lparr> err := Some e', view := ViewPRFiles \<rparr>
             | None \<Rightarrow>
                 (updateFileList B (m\<lparr> err := None, prFiles := files \<rparr>))\<lparr> view := ViewPRFiles \<rparr>)
      | DiffLoadedMsg diff filePath e \<Rightarrow>
          finish B msg []
            (case e of
               Some e' \<Rightarrow> m\<lparr> err := Some e' \<rparr>
             | None \<Rightarrow>
                 m\<lparr> err := None, currentDiff := diff, currentFilePath := filePath,
                    diffViewport :=
                      viewport_SetContent B (formatDiff B diff filePath) (diffViewport m),
                    view := ViewFileDiff \<rparr>)
      | LogsLoadedMsg logs e \<Rightarrow>
          finish B msg []
            (let m1 = m\<lparr> loadingLogs := False \<rparr>
             in case e of
                  Some e' \<Rightarrow> m1\<lparr> err := Some e' \<rparr>
                | None \<Rightarrow>
                    m1\<lparr> buildLogs := logs,
                        logsViewport := viewport_SetContent B logs (logsViewport m1),
                        view := ViewBuildLogs \<rparr>)
      | OtherMsg x \<Rightarrow> finish B msg [] m)"

text \<open>Running a command against the client gives the completion message it delivers.\<close>

fun runCmd :: "Config \<Rightarrow> Client \<Rightarrow> Time \<Rightarrow> 'c Cmd \<Rightarrow> Msg option" where
  "runCmd cfg c now LoadData = Some (loadData cfg c)"
| "runCmd cfg c now TickCmd = Some (TickMsg now)"
| "runCmd cfg c now (LoadPRFiles pr) = Some (loadPRFiles c pr)"
| "runCmd cfg c now (LoadFileDiff pr filePath) = Some (loadFileDiff c pr filePath)"
| "runCmd cfg c now (LoadBuildLogs b) = Some (loadBuildLogs cfg c b)"
| "runCmd cfg c now cmd = None"

subsection \<open>The message loop\<close>

text \<open>
  The bubbletea runtime applies the messages one at a time, each to the state the
  previous one left, and collects the commands; \<open>Updates\<close> does so for a list of
  messages, each with the clock reading at the time it is applied. A panic ends the run.
\<close>

fun Updates ::
  "('l, 'v, 'c) Bubbles \<Rightarrow> (Time \<times> Msg) list \<Rightarrow> ('l, 'v) Model
     \<Rightarrow> panic + (('l, 'v) Model \<times> 'c Cmd list)" where
  "Updates B [] m = Inr (m, [])"
| "Updates B ((now, msg) # rest) m =
     (case Update B now msg m of
        Inl p \<Rightarrow> Inl p
      | Inr (m', cmds) \<Rightarrow>
          (case Updates B rest m' of
             Inl p \<Rightarrow> Inl p
           | Inr (m'', cmds') \<Rightarrow> Inr (m'', cmds @ cmds')))"

subsection \<open>A small instance to run the model on\<close>

text \<open>
  A stand-in for the bubbles widgets: a list is its cursor alone (moved by the arrow
  keys and \<open>j\<close>/\<open>k\<close>, never clamped), a viewport is its content, \<open>formatDiff\<close> adds
  no colour, and no widget returns a command.
\<close>

definition cursorBubbles :: "(int, string, unit) Bubbles" where
  "cursorBubbles =
     \<lparr> list_New = (\<lambda>title. 0),
       list_SetItems = (\<lambda>items l. l),
       list_SetSize = (\<lambda>w h l. l),
       list_Index = (\<lambda>l. l),
       list_Update =
         (\<lambda>msg l.
            (case msg of
               KeyMsg k \<Rightarrow>
                 if k = ''down'' \<or> k = ''j'' then l + 1
                 else if k = ''up'' \<or> k = ''k'' then l - 1
                 else l
             | _ \<Rightarrow> l,
             None)),
       viewport_New = (\<lambda>w h. \<lparr> Width = w, Height = h, vp_state = [] \<rparr>),
       viewport_SetContent = (\<lambda>s v. v\<lparr> vp_state := s \<rparr>),
       viewport_Update = (\<lambda>msg v. (v, None)),
       formatDiff = (\<lambda>diff filePath. diff) \<rparr>"

definition userA :: User where
  "userA = \<lparr> DisplayName = ''Ada'', UniqueName = ''ada@example.org'' \<rparr>"

definition repoA :: Repository where
  "repoA = \<lparr> Repository_Name = ''RepoA'', Repository_Project = \<lparr> Project_Name = ''ProjectA'' \<rparr> \<rparr>"

definition pr1 :: PullRequest where
  "pr1 = \<lparr> PR_ID = 101, Title = ''Fix parser'', Description = [], PR_Status = ''active'',
           CreatedBy = userA, CreationDate = 0, PR_Repository = repoA,
           SourceRefName = ''refs/heads/fix'', TargetRefName = ''refs/heads/main'',
           IsDraft = False \<rparr>"

definition pr2 :: PullRequest where
  "pr2 = pr1\<lparr> PR_ID := 102, Title := ''Add cache'', SourceRefName := ''refs/heads/cache'' \<rparr>"

definition build1 :: Build where
  "build1 = \<lparr> Build_ID = 7, BuildNumber = ''20240101.1'', Build_Status = ''completed'',
              Build_Result = ''succeeded'', QueueTime = 0, StartTime = 0, FinishTime = 0,
              SourceBranch = ''refs/heads/main'',
              Build_Definition = \<lparr> Definition_ID = 3, Definition_Name = ''CI'' \<rparr>,
              RequestedFor = userA \<rparr>"

definition configA :: Config where
  "configA =
     \<lparr> Organization = ''org'',
       PullRequests = [\<lparr> PRC_Project = ''ProjectA'', PRC_Repository = ''RepoA'' \<rparr>],
       Pipelines = [\<lparr> PC_Project = ''ProjectA'', PC_Pipeline = ''CI'', PC_DefinitionID = 0 \<rparr>],
       RefreshInterval = 30 \<rparr>"

text \<open>
  The scenario of the specification: one pull-request pair and one pipeline pair, and an
  initial load of two pull requests and three builds has been applied.
\<close>

definition loadedModel :: "(int, string) Model" where
  "loadedModel =
     (NewModel cursorBubbles configA)
       \<lparr> pullRequests := [pr1, pr2],
         builds := [build1, build1\<lparr> Build_ID := 8 \<rparr>, build1\<lparr> Build_ID := 9 \<rparr>],
         loading := False,
         lastUpdate := 1000 * Second \<rparr>"

text \<open>
  A configuration of three pull-request pairs, and a client for which the first and
  the third fail and the second returns one pull request.
\<close>

definition configB :: Config where
  "configB =
     \<lparr> Organization = ''org'',
       PullRequests =
         [\<lparr> PRC_Project = ''ProjectA'', PRC_Repository = ''RepoA'' \<rparr>,
          \<lparr> PRC_Project = ''ProjectA'', PRC_Repository = ''RepoB'' \<rparr>,
          \<lparr> PRC_Project = ''ProjectA'', PRC_Repository = ''RepoC'' \<rparr>],
       Pipelines = [\<lparr> PC_Project = ''ProjectA'', PC_Pipeline = ''CI'', PC_DefinitionID = 0 \<rparr>],
       RefreshInterval = 30 \<rparr>"

definition clientB :: Client where
  "clientB =
     \<lparr> GetPullRequests =
         (\<lambda>project repository.
            if repository = ''RepoB'' then Inr [pr1]
            else Inl (ErrorString ''API request failed with status 500: '')),
       GetBuilds = (\<lambda>project pipelineName definitionID. Inr [build1]),
       GetPRFiles = (\<lambda>project repository prID. Inr [''a.go'', ''b.go'']),
       GetPRFileDiff =
         (\<lambda>project repository prID filePath. Inr (''diff --git a/'' @ filePath)),
       GetBuildLogs = (\<lambda>project buildID. Inr []),
       GetBuildLogContent = (\<lambda>project buildID logID. Inr []) \<rparr>"

subsection \<open>What the specification says a full refresh delivers\<close>

text \<open>
  In the specification's words: the data of the pairs that succeed, and an error for each
  pair that fails, carrying the pair's identity and the cause. The functions below list
  both, in configuration order.
\<close>

definition prError :: "PullRequestConfig \<Rightarrow> error \<Rightarrow> error" where
  "prError prConfig e =
     Errorf (''failed to load PRs for '' @ PRC_Project prConfig @ ''/''
               @ PRC_Repository prConfig @ '': '') e"

definition buildError :: "PipelineConfig \<Rightarrow> error \<Rightarrow> error" where
  "buildError pipelineConfig e =
     Errorf (''failed to load builds for '' @ PC_Project pipelineConfig @ ''/''
               @ pipelineIdentifier pipelineConfig @ '': '') e"

definition succeededPRs :: "Client \<Rightarrow> PullRequestConfig list \<Rightarrow> PullRequest list" where
  "succeededPRs c pairs =
     concat (map (\<lambda>p. case GetPullRequests c (PRC_Project p) (PRC_Repository p) of
                          Inl e \<Rightarrow> [] | Inr prs \<Rightarrow> prs) pairs)"

definition failedPRs :: "Client \<Rightarrow> PullRequestConfig list \<Rightarrow> error list" where
  "failedPRs c pairs =
     concat (map (\<lambda>p. case GetPullRequests c (PRC_Project p) (PRC_Repository p) of
                          Inl e \<Rightarrow> [prError p e] | Inr prs \<Rightarrow> []) pairs)"

definition succeededBuilds :: "Client \<Rightarrow> PipelineConfig list \<Rightarrow> Build list" where
  "succeededBuilds c pairs =
     concat (map (\<lambda>p. case GetBuilds c (PC_Project p) (PC_Pipeline p) (PC_DefinitionID p) of
                          Inl e \<Rightarrow> [] | Inr bs \<Rightarrow> bs) pairs)"

definition failedBuilds :: "Client \<Rightarrow> PipelineConfig list \<Rightarrow> error list" where
  "failedBuilds c pairs =
     concat (map (\<lambda>p. case GetBuilds c (PC_Project p) (PC_Pipeline p) (PC_DefinitionID p) of
                          Inl e \<Rightarrow> [buildError p e] | Inr bs \<Rightarrow> []) pairs)"

definition lastOf :: "'a list \<Rightarrow> 'a option" where
  "lastOf xs = (if xs = [] then None else Some (last xs))"

subsection \<open>When a selection-dependent transition has nothing to act on\<close>

text \<open>
  The relevant list is the pull requests on the first tab of the dashboard, the builds
  on the second, and the changed files in the file view; the selection is the index of
  the list widget.
\<close>

definition outOfBounds :: "int \<Rightarrow> 'a list \<Rightarrow> bool" where
  "outOfBounds idx xs = (xs = [] \<or> idx < 0 \<or> idx \<ge> len xs)"

definition nothingSelected :: "('l, 'v, 'c) Bubbles \<Rightarrow> ('l, 'v) Model \<Rightarrow> bool" where
  "nothingSelected B m =
     (case view m of
        ViewDashboard \<Rightarrow>
          if activeTab m = 0 then outOfBounds (list_Index B (prList m)) (pullRequests m)
          else if activeTab m = 1 then outOfBounds (list_Index B (buildList m)) (builds m)
          else False
      | ViewPRFiles \<Rightarrow> outOfBounds (list_Index B (fileList m)) (prFiles m)
      | _ \<Rightarrow> False)"

subsection \<open>The refresh clock over a run of messages\<close>

text \<open>
  In the words of the specification's scheduler: the time of the latest refresh
  completion among the messages applied so far, or the time the run started with when
  there is none.
\<close>

fun lastCompletion :: "(Time \<times> Msg) list \<Rightarrow> Time \<Rightarrow> Time" where
  "lastCompletion [] t0 = t0"
| "lastCompletion ((now, msg) # rest) t0 =
     lastCompletion rest (case msg of DataLoadedMsg prs bs e \<Rightarrow> now | _ \<Rightarrow> t0)"

text \<open>Two states with the same lists, list widgets and refresh clock.\<close>

definition sameLists :: "('l, 'v) Model \<Rightarrow> ('l, 'v) Model \<Rightarrow> bool" where
  "sameLists m1 m =
     (pullRequests m1 = pullRequests m \<and> builds m1 = builds m \<and> prFiles m1 = prFiles m \<and>
      prList m1 = prList m \<and> buildList m1 = buildList m \<and> fileList m1 = fileList m \<and>
      lastUpdate m1 = lastUpdate m \<and> autoRefresh m1 = autoRefresh m \<and>
      refreshInterval m1 = refreshInterval m)"

subsection \<open>The selected index of the three list widgets\<close>

text \<open>
  An index is in bounds for a list when it is an index into it, or 0 when the list is
  empty (what \<open>Index()\<close> of an empty list widget returns).
\<close>

definition indexInBounds :: "int \<Rightarrow> 'a list \<Rightarrow> bool" where
  "indexInBounds idx xs = (0 \<le> idx \<and> (idx < len xs \<or> (xs = [] \<and> idx = 0)))"







section \<open>Package azuredevops: GetPRFileDiff\<close>

text \<open>\<open>strings.Split(s, sep)\<close> for a separator of one byte: never an empty result.\<close>

fun Split :: "string \<Rightarrow> char \<Rightarrow> string list" where
  "Split [] sep = [[]]"
| "Split (c # cs) sep =
     (if c = sep then [] # Split cs sep
      else (case Split cs sep of
              [] \<Rightarrow> [[c]]
            | x # xs \<Rightarrow> (c # x) # xs))"

text \<open>
  What \<open>GetPRFileDiff\<close> calls and does not define: the authenticated HTTP request,
  \<open>json.Unmarshal\<close> into the struct of the two commit ids (source first, target
  second), and \<open>DiffMain\<close> of the go-diff library.
\<close>

datatype Operation = DiffDelete | DiffInsert | DiffEqual

record Diff =
  Diff_Type :: Operation
  Diff_Text :: string

record Http =
  doRequest :: "string \<Rightarrow> error + string"
  unmarshalPR :: "string \<Rightarrow> error + (string \<times> string)"
  DiffMain :: "string \<Rightarrow> string \<Rightarrow> Diff list"

definition apiVersion :: string where
  "apiVersion = ''7.1''"

definition baseURL :: string where
  "baseURL = ''https://dev.azure.com''"

definition itemURL :: "string \<Rightarrow> string \<Rightarrow> string \<Rightarrow> string \<Rightarrow> string \<Rightarrow> string" where
  "itemURL organization project repository filePath commitID =
     baseURL @ ''/'' @ organization @ ''/'' @ project @ ''/_apis/git/repositories/'' @ repository
       @ ''/items?path='' @ filePath
       @ ''&versionDescriptor.versionType=commit&versionDescriptor.version='' @ commitID
       @ ''&api-version='' @ apiVersion"

text \<open>The inner loop of the span walk: one span's text, line by line.\<close>

fun spanLines :: "Operation \<Rightarrow> string list \<Rightarrow> string" where
  "spanLines ty [] = []"
| "spanLines ty (line # rest) =
     (if rest = [] \<and> line = [] then []
      else (case ty of
              DiffInsert \<Rightarrow> ''+'' @ line @ [nl]
            | DiffDelete \<Rightarrow> ''-'' @ line @ [nl]
            | DiffEqual \<Rightarrow> '' '' @ line @ [nl]))
     @ spanLines ty rest"

definition Client_GetPRFileDiff ::
  "Http \<Rightarrow> string \<Rightarrow> string \<Rightarrow> string \<Rightarrow> int \<Rightarrow> string \<Rightarrow> error + string" where
  "Client_GetPRFileDiff H organization project repository prID filePath =
     (case doRequest H
             (baseURL @ ''/'' @ organization @ ''/'' @ project @ ''/_apis/git/repositories/''
                @ repository @ ''/pullRequests/'' @ itoa prID @ ''?api-version='' @ apiVersion) of
        Inl e \<Rightarrow> Inl e
      | Inr body \<Rightarrow>
          (case unmarshalPR H body of
             Inl e \<Rightarrow> Inl (Errorf ''failed to parse PR details: '' e)
           | Inr (sourceCommit, targetCommit) \<Rightarrow>
               (let targetContent =
                      doRequest H (itemURL organization project repository filePath targetCommit);
                    isNewFile = (case targetContent of Inl e \<Rightarrow> True | Inr t \<Rightarrow> False);
                    targetText = (case targetContent of Inl e \<Rightarrow> [] | Inr t \<Rightarrow> t);
                    sourceContent =
                      doRequest H (itemURL organization project repository filePath sourceCommit);
                    isDeletedFile = (case sourceContent of Inl e \<Rightarrow> True | Inr t \<Rightarrow> False);
                    sourceText = (case sourceContent of Inl e \<Rightarrow> [] | Inr t \<Rightarrow> t);
                    diffs = DiffMain H targetText sourceText;
                    header = ''diff --git a/'' @ filePath @ '' b/'' @ filePath @ [nl]
                in Inr
                     (header @
                      (if isNewFile then
                         ''new file'' @ [nl] @ ''--- /dev/null'' @ [nl]
                           @ ''+++ b/'' @ filePath @ [nl]
                           @ (let lines = Split sourceText nl
                              in if len lines > 0 then
                                   ''@@ -0,0 +1,'' @ itoa (len lines) @ '' @@'' @ [nl]
                                     @ concat (map (\<lambda>line. ''+'' @ line @ [nl]) lines)
                                 else [])
                       else if isDeletedFile then
                         ''deleted file'' @ [nl] @ ''--- a/'' @ filePath @ [nl]
                           @ ''+++ /dev/null'' @ [nl]
                           @ (let lines = Split targetText nl
                              in if len lines > 0 then
                                   ''@@ -1,'' @ itoa (len lines) @ '' +0,0 @@'' @ [nl]
                                     @ concat (map (\<lambda>line. ''-'' @ line @ [nl]) lines)
                                 else [])
                       else
                         ''--- a/'' @ filePath @ [nl] @ ''+++ b/'' @ filePath @ [nl]
                           @ ''@@ -1,'' @ itoa (len (Split targetText nl)) @ '' +1,''
                           @ itoa (len (Split sourceText nl)) @ '' @@'' @ [nl]
                           @ concat (map (\<lambda>d. spanLines (Diff_Type d) (Split (Diff_Text d) nl))
                                       diffs))))))"

text \<open>
  A run of the new-file branch: the pull request resolves to the commits \<open>s1\<close> and
  \<open>t1\<close>, the file does not exist at the target commit, and its content at the source
  commit is the one line \<open>a\<close> with its newline.
\<close>

definition newFileHttp :: Http where
  "newFileHttp =
     \<lparr> doRequest =
         (\<lambda>url.
            if url = itemURL ''org'' ''ProjectA'' ''RepoA'' ''f.txt'' ''s1'' then Inr (''a'' @ [nl])
            else if url = itemURL ''org'' ''ProjectA'' ''RepoA'' ''f.txt'' ''t1''
              then Inl (ErrorString ''API request failed with status 404: '')
            else Inr []),
       unmarshalPR = (\<lambda>body. Inr (''s1'', ''t1'')),
       DiffMain =
         (\<lambda>text1 text2. [\<lparr> Diff_Type = DiffInsert, Diff_Text = text2 \<rparr>]) \<rparr>"

section \<open>The pipeline dashboard (packages models and ui of the first iteration)\<close>

text \<open>
  The repository holds an earlier user interface as well: a list of pipeline runs with
  a detail view. Its \<open>Model\<close>, \<open>Update\<close>, \<open>View\<close> and their neighbours share
  their names with the ones above, so they carry the suffix \<open>_pl\<close> here, as do the
  record fields that would clash.
\<close>

subsection \<open>Package models\<close>

text \<open>
  A \<open>*time.Time\<close> field is a \<open>Time option\<close>. The \<open>Build\<close> field, a pointer to the
  record of the Azure DevOps library the pipeline was made from, is read by no function
  and is left out.
\<close>

record Pipeline =
  P_ID :: int
  Number :: string
  P_Status :: string
  P_Result :: string
  P_Definition :: string
  P_SourceBranch :: string
  RequestedBy :: string
  P_StartTime :: "Time option"
  P_FinishTime :: "Time option"
  P_QueueTime :: "Time option"

record JobInfo =
  Job_Name :: string
  Job_State :: string
  Job_Result :: string
  Job_StartTime :: "Time option"
  Job_FinishTime :: "Time option"

record StageInfo =
  Stage_Name :: string
  Stage_State :: string
  Stage_Result :: string
  Stage_StartTime :: "Time option"
  Stage_FinishTime :: "Time option"
  Jobs :: "JobInfo list"

text \<open>Integer quotient truncated towards zero, as Go's \<open>/\<close> and \<open>int(x)\<close> truncate.\<close>

definition quot :: "int \<Rightarrow> int \<Rightarrow> int" where
  "quot a b = sgn a * sgn b * (\<bar>a\<bar> div \<bar>b\<bar>)"

text \<open>
  \<open>Pipeline.Duration\<close>, with the reading \<open>now\<close> of \<open>time.Now()\<close>. The Go code
  takes \<open>int(duration.Seconds())\<close>, \<open>int(duration.Minutes())\<close> and
  \<open>int(duration.Hours())\<close> through \<open>float64\<close>; for durations shorter than
  \<open>2^23\<close> seconds (97 days) in absolute value that is the truncated integer quotient
  written here, beyond that the rounding of the floating-point sum can add one.
\<close>

definition Pipeline_Duration :: "Time \<Rightarrow> Pipeline \<Rightarrow> string" where
  "Pipeline_Duration now p =
     (case P_StartTime p of
        None \<Rightarrow> ''Not started''
      | Some startTime \<Rightarrow>
          (let endTime = (case P_FinishTime p of None \<Rightarrow> now | Some finishTime \<Rightarrow> finishTime);
               duration = Sub endTime startTime
           in if duration < Minute then itoa (quot duration Second) @ ''s''
              else if duration < Hour then
                itoa (quot duration Minute) @ ''m '' @ itoa (go_rem (quot duration Second) 60) @ ''s''
              else
                itoa (quot duration Hour) @ ''h '' @ itoa (go_rem (quot duration Minute) 60) @ ''m''))"

definition IsRunning :: "Pipeline \<Rightarrow> bool" where
  "IsRunning p = (P_Status p = ''InProgress'')"

subsection \<open>Package ui: styles\<close>

text \<open>
  The lipgloss styles the package declares, by name; \<open>newStyle\<close> is
  \<open>lipgloss.NewStyle()\<close>, \<open>boldStyle\<close> is \<open>lipgloss.NewStyle().Bold(true)\<close> and
  \<open>mutedStyle\<close> is \<open>lipgloss.NewStyle().Foreground(mutedColor)\<close>.
\<close>

datatype Style =
    titleStyle | subtitleStyle | selectedStyle | successStyle | errorStyle | warningStyle
  | inProgressStyle | listItemStyle | selectedListItemStyle | boxStyle | helpStyle
  | progressBarStyle | progressEmptyStyle | newStyle | boldStyle | mutedStyle

definition GetStatusStyle :: "string \<Rightarrow> Style" where
  "GetStatusStyle status =
     (if status = ''succeeded'' \<or> status = ''Succeeded'' \<or> status = ''completed'' then successStyle
      else if status = ''failed'' \<or> status = ''Failed'' then errorStyle
      else if status = ''inProgress'' \<or> status = ''InProgress'' \<or> status = ''running''
        then inProgressStyle
      else if status = ''canceled'' \<or> status = ''Cancelled'' then warningStyle
      else newStyle)"

text \<open>
  The library calls of this user interface: rendering a string in a lipgloss style,
  \<open>lipgloss.JoinVertical(lipgloss.Left, _, _)\<close>, the rune count by which
  \<open>fmt.Sprintf\<close> pads, and the methods of \<open>viewport.Model\<close>.
\<close>

record 'v Lipgloss =
  Render :: "Style \<Rightarrow> string \<Rightarrow> string"
  JoinVertical :: "string \<Rightarrow> string \<Rightarrow> string"
  RuneCountInString :: "string \<Rightarrow> nat"
  viewport_New_pl :: "int \<Rightarrow> int \<Rightarrow> 'v viewport_Model"
  LineUp :: "int \<Rightarrow> 'v viewport_Model \<Rightarrow> 'v viewport_Model"
  LineDown :: "int \<Rightarrow> 'v viewport_Model \<Rightarrow> 'v viewport_Model"
  ViewUp :: "'v viewport_Model \<Rightarrow> 'v viewport_Model"
  ViewDown :: "'v viewport_Model \<Rightarrow> 'v viewport_Model"
  SetContent :: "string \<Rightarrow> 'v viewport_Model \<Rightarrow> 'v viewport_Model"
  viewport_View :: "'v viewport_Model \<Rightarrow> string"

text \<open>\<open>fmt.Sprintf("%-Ns", s)\<close>: blanks on the right up to \<open>N\<close> runes.\<close>

definition padRight :: "'v Lipgloss \<Rightarrow> nat \<Rightarrow> string \<Rightarrow> string" where
  "padRight L n s = s @ replicate (n - RuneCountInString L s) CHR '' ''"

text \<open>\<open>strings.Join\<close>.\<close>

fun Join :: "string list \<Rightarrow> string \<Rightarrow> string" where
  "Join [] sep = []"
| "Join [x] sep = x"
| "Join (x # y # ys) sep = x @ sep @ Join (y # ys) sep"

subsection \<open>Package ui: model, messages and commands\<close>

datatype view_pl = pipelineListView | pipelineDetailView

record 'v Model_pl =
  pipelines :: "Pipeline list"
  selectedIndex :: int
  currentView :: view_pl
  selectedPipeline :: "Pipeline option"
  stages :: "StageInfo list"
  logs_pl :: string
  viewport :: "'v viewport_Model"
  width_pl :: int
  height_pl :: int
  loading_pl :: bool
  err_pl :: "error option"
  autoRefresh_pl :: bool


datatype Cmd_pl = Quit_pl | loadPipelines | loadPipelineDetail int | tickCmd

definition NewModel_pl :: "'v Lipgloss \<Rightarrow> 'v Model_pl" where
  "NewModel_pl L =
     \<lparr> pipelines = [],
       selectedIndex = 0,
       currentView = pipelineListView,
       selectedPipeline = None,
       stages = [],
       logs_pl = [],
       viewport = viewport_New_pl L 80 20,
       width_pl = 0,
       height_pl = 0,
       loading_pl = True,
       err_pl = None,
       autoRefresh_pl = True \<rparr>"

definition Init_pl :: "Cmd_pl list" where
  "Init_pl = [loadPipelines, tickCmd]"

subsection \<open>Package ui: rendering\<close>

text \<open>The non-ASCII runes of the source, as their UTF-8 bytes.\<close>

definition rightTriangle :: string where
  "rightTriangle = [CHR 0xE2, CHR 0x96, CHR 0xB6]"


definition bullet :: string where
  "bullet = [CHR 0xE2, CHR 0x80, CHR 0xA2]"

definition upArrow :: string where
  "upArrow = [CHR 0xE2, CHR 0x86, CHR 0x91]"

definition downArrow :: string where
  "downArrow = [CHR 0xE2, CHR 0x86, CHR 0x93]"

text \<open>The body of the loop of \<open>renderPipelineList\<close>, for the pipeline at index \<open>i\<close>.\<close>

definition renderPipelineLine ::
  "'v Lipgloss \<Rightarrow> Time \<Rightarrow> 'v Model_pl \<Rightarrow> int \<Rightarrow> Pipeline \<Rightarrow> string" where
  "renderPipelineLine L now m i pipeline =
     (let status = Render L (GetStatusStyle (P_Status pipeline)) (padRight L 12 (P_Status pipeline));
          definition =
            (if len (P_Definition pipeline) > 30 then take 27 (P_Definition pipeline) @ ''...''
             else P_Definition pipeline);
          branch =
            (if len (P_SourceBranch pipeline) > 25 then
               (let b = last (Split (P_SourceBranch pipeline) CHR ''/'')
                in if len b > 25 then take 22 b @ ''...'' else b)
             else P_SourceBranch pipeline);
          duration = Pipeline_Duration now pipeline;
          line = status @ ''  '' @ padRight L 32 definition @ ''  '' @ padRight L 27 branch
                   @ ''  '' @ duration
      in (if i = selectedIndex m then Render L selectedListItemStyle (rightTriangle @ '' '' @ line)
          else Render L listItemStyle (''  '' @ line))
         @ [nl])"

definition renderPipelineList :: "'v Lipgloss \<Rightarrow> Time \<Rightarrow> 'v Model_pl \<Rightarrow> string" where
  "renderPipelineList L now m =
     Render L titleStyle ''Azure DevOps - Pipeline Dashboard'' @ [nl, nl] @
     (if loading_pl m \<and> len (pipelines m) = 0 then ''Loading pipelines...'' @ [nl]
      else if len (pipelines m) = 0 then ''No pipelines found.'' @ [nl]
      else concat (map (\<lambda>(i, pipeline). renderPipelineLine L now m (int i) pipeline)
                     (zip [0 ..< length (pipelines m)] (pipelines m))))"

definition renderPipelineDetail :: "'v Lipgloss \<Rightarrow> 'v Model_pl \<Rightarrow> string" where
  "renderPipelineDetail L m =
     (case selectedPipeline m of
        None \<Rightarrow> ''No pipeline selected''
      | Some p \<Rightarrow>
          Render L titleStyle (''Pipeline: '' @ P_Definition p @ '' - '' @ Number p) @ [nl] @
          Render L subtitleStyle ''Press ESC to go back'' @ [nl, nl] @
          (if loading_pl m \<and> len (stages m) = 0 then ''Loading pipeline details...'' @ [nl]
           else viewport_View L (viewport m)))"

definition renderHelp :: "'v Lipgloss \<Rightarrow> 'v Model_pl \<Rightarrow> string" where
  "renderHelp L m =
     Render L helpStyle
       (Join (if currentView m = pipelineListView then
                [upArrow @ ''/k up'', downArrow @ ''/j down'', ''enter select'', ''r refresh'',
                 ''q quit'']
              else
                [upArrow @ ''/'' @ downArrow @ '' scroll'', ''pgup/pgdown page'', ''esc back'',
                 ''r refresh'', ''q quit''])
          ('' '' @ bullet @ '' ''))"

text \<open>\<open>View\<close>: the frame for a state, with the clock reading \<open>Pipeline.Duration\<close> takes.\<close>

definition View_pl :: "'v Lipgloss \<Rightarrow> Time \<Rightarrow> 'v Model_pl \<Rightarrow> string" where
  "View_pl L now m =
     (case err_pl m of
        Some e \<Rightarrow> Render L errorStyle (''Error: '' @ Error e @ [nl, nl] @ ''Press q to quit'')
      | None \<Rightarrow>
          JoinVertical L
            (case currentView m of
               pipelineListView \<Rightarrow> renderPipelineList L now m
             | pipelineDetailView \<Rightarrow> renderPipelineDetail L m)
            (renderHelp L m))"





subsection \<open>Package ui: Update\<close>

definition updateKey_pl ::
  "'v Lipgloss \<Rightarrow> string \<Rightarrow> 'v Model_pl \<Rightarrow> panic + ('v Model_pl \<times> Cmd_pl list)" where
  "updateKey_pl L k m =
     (if k = ''ctrl+c'' \<or> k = ''q'' then Inr (m, [Quit_pl])
      else if k = ''esc'' then
        Inr (if currentView m = pipelineDetailView then
               m\<lparr> currentView := pipelineListView, selectedPipeline := None, stages := [],
                  logs_pl := [] \<rparr>
             else m, [])
      else if k = ''r'' then
        (if currentView m = pipelineListView then Inr (m\<lparr> loading_pl := True \<rparr>, [loadPipelines])
         else (case selectedPipeline m of
                 Some p \<Rightarrow> Inr (m\<lparr> loading_pl := True \<rparr>, [loadPipelineDetail (P_ID p)])
               | None \<Rightarrow> Inr (m, [])))
      else if k = ''up'' \<or> k = ''k'' then
        Inr (if currentView m = pipelineListView \<and> selectedIndex m > 0 then
               m\<lparr> selectedIndex := selectedIndex m - 1 \<rparr>
             else if currentView m = pipelineDetailView then
               m\<lparr> viewport := LineUp L 1 (viewport m) \<rparr>
             else m, [])
      else if k = ''down'' \<or> k = ''j'' then
        Inr (if currentView m = pipelineListView \<and> selectedIndex m < len (pipelines m) - 1 then
               m\<lparr> selectedIndex := selectedIndex m + 1 \<rparr>
             else if currentView m = pipelineDetailView then
               m\<lparr> viewport := LineDown L 1 (viewport m) \<rparr>
             else m, [])
      else if k = ''enter'' then
        (if currentView m = pipelineListView \<and> len (pipelines m) > 0 then
           (case index (pipelines m) (selectedIndex m) of
              Inl p \<Rightarrow> Inl p
            | Inr p \<Rightarrow>
                Inr (m\<lparr> selectedPipeline := Some p, currentView := pipelineDetailView,
                        loading_pl := True \<rparr>, [loadPipelineDetail (P_ID p)]))
         else Inr (m, []))
      else if k = ''pgup'' then
        Inr (if currentView m = pipelineDetailView then m\<lparr> viewport := ViewUp L (viewport m) \<rparr>
             else m, [])
      else if k = ''pgdown'' then
        Inr (if currentView m = pipelineDetailView then m\<lparr> viewport := ViewDown L (viewport m) \<rparr>
             else m, [])
      else Inr (m, []))"



text \<open>
  The selection is in bounds: an index into the list, or 0 (the value the field starts
  with) when the list is empty.
\<close>

definition selectionInBounds :: "'v Model_pl \<Rightarrow> bool" where
  "selectionInBounds m =
     (0 \<le> selectedIndex m \<and>
      (selectedIndex m < len (pipelines m) \<or> (pipelines m = [] \<and> selectedIndex m = 0)))"

text \<open>
  A plain instance of the library: styles leave the text as it is, a viewport is its
  content, the rune count is the byte count (right for ASCII text).
\<close>

definition plainLipgloss :: "string Lipgloss" where
  "plainLipgloss =
     \<lparr> Render = (\<lambda>style s. s),
       JoinVertical = (\<lambda>a b. a @ [nl] @ b),
       RuneCountInString = length,
       viewport_New_pl = (\<lambda>w h. \<lparr> Width = w, Height = h, vp_state = [] \<rparr>),
       LineUp = (\<lambda>n v. v),
       LineDown = (\<lambda>n v. v),
       ViewUp = (\<lambda>v. v),
       ViewDown = (\<lambda>v. v),
       SetContent = (\<lambda>s v. v\<lparr> vp_state := s \<rparr>),
       viewport_View = vp_state \<rparr>"

definition runningPipeline :: Pipeline where
  "runningPipeline =
     \<lparr> P_ID = 7, Number = ''20240101.1'', P_Status = ''inProgress'', P_Result = [],
       P_Definition = ''CI'', P_SourceBranch = ''refs/heads/main'', RequestedBy = ''Ada'',
       P_StartTime = Some (1000 * Second), P_FinishTime = None,
       P_QueueTime = Some (990 * Second) \<rparr>"

definition runningModel :: "string Model_pl" where
  "runningModel =
     (NewModel_pl plainLipgloss)\<lparr> pipelines := [runningPipeline], loading_pl := False \<rparr>"


text \<open>
  No clock is read for a state that shows an error, shows the detail view, or lists only
  pipelines that have not started or have finished.
\<close>

definition clockFree :: "'v Model_pl \<Rightarrow> bool" where
  "clockFree m =
     (err_pl m \<noteq> None \<or> currentView m = pipelineDetailView \<or>
      list_all (\<lambda>p. P_StartTime p = None \<or> P_FinishTime p \<noteq> None) (pipelines m))"

section \<open>Facts about the model that the claims share\<close>

lemma digits_small: "n < 10 \<Longrightarrow> digits n = [digitChar n]"
  by (simp add: digits.simps)

lemma index_in_range: "0 \<le> i \<Longrightarrow> i < len xs \<Longrightarrow> index xs i = Inr (xs ! nat i)"
  by (simp add: index_def len_def)

lemma finish_Inr:
  "finish B msg cmds m =
     Inr (fst (updateActive B msg m), batch cmds (snd (updateActive B msg m)))"
  by (simp add: finish_def split: prod.splits)

lemma updateActive_view [simp]: "view (fst (updateActive B msg m)) = view m"
  by (simp add: updateActive_def split: View.splits prod.splits)

lemma updateActive_err [simp]: "err (fst (updateActive B msg m)) = err m"
  by (simp add: updateActive_def split: View.splits prod.splits)

lemma updateActive_data [simp]:
  "pullRequests (fst (updateActive B msg m)) = pullRequests m"
  "builds (fst (updateActive B msg m)) = builds m"
  "prFiles (fst (updateActive B msg m)) = prFiles m"
  "selectedPR (fst (updateActive B msg m)) = selectedPR m"
  "currentDiff (fst (updateActive B msg m)) = currentDiff m"
  "currentFilePath (fst (updateActive B msg m)) = currentFilePath m"
  "loading (fst (updateActive B msg m)) = loading m"
  "lastUpdate (fst (updateActive B msg m)) = lastUpdate m"
  by (simp_all add: updateActive_def split: View.splits prod.splits)

lemma batch_LoadData [simp]: "LoadData \<in> set (batch cmds cmd) \<longleftrightarrow> LoadData \<in> set cmds"
  by (simp add: batch_def split: option.splits)

text \<open>No message makes \<open>Update\<close> panic: every index expression of \<open>handleEnter\<close> is guarded.\<close>

lemma handleEnter_no_panic: "\<exists>r. handleEnter B m = Inr r"
  by (cases "selectedPR m")
     (auto simp add: handleEnter_def Let_def index_in_range split: View.splits)

lemma Update_no_panic: "\<exists>r. Update B now msg m = Inr r"
  using handleEnter_no_panic [of B m]
  by (cases msg) (auto simp add: Update_def updateKey_def finish_Inr)

lemma Update_DiffLoaded:
  "\<exists>m' cmds. Update B now (DiffLoadedMsg diff filePath None) m = Inr (m', cmds) \<and>
      view m' = ViewFileDiff \<and> currentDiff m' = diff \<and> currentFilePath m' = filePath \<and>
      selectedPR m' = selectedPR m"
  by (simp add: Update_def finish_Inr)

lemma Updates_append:
  "Updates B (xs @ ys) m =
     (case Updates B xs m of
        Inl p \<Rightarrow> Inl p
      | Inr (m', cmds) \<Rightarrow>
          (case Updates B ys m' of
             Inl p \<Rightarrow> Inl p
           | Inr (m'', cmds') \<Rightarrow> Inr (m'', cmds @ cmds')))"
  by (induction xs arbitrary: m) (auto split: sum.splits prod.splits)

lemma sameLists_refl [simp]: "sameLists m m"
  by (simp add: sameLists_def)

text \<open>
  What a key can do to the lists and to the refresh clock: nothing directly; at most the
  widget of the current view sees the key afterwards.
\<close>

lemma handleEnter_sameLists:
  "\<exists>m' cmds. handleEnter B m = Inr (m', cmds) \<and> sameLists m' m"
  by (cases "selectedPR m")
     (simp_all add: handleEnter_def Let_def index_in_range sameLists_def split: View.splits)

lemma updateKey_sameLists:
  "\<exists>m1 cmds. sameLists m1 m \<and>
     (updateKey B k m = Inr (m1, cmds) \<or> updateKey B k m = finish B (KeyMsg k) [] m1)"
    (is ?P)
proof -
  have c1: "k = ''ctrl+c'' \<Longrightarrow> ?P"
    by (rule exI [of _ m], rule exI [of _ "[Quit]"]) (simp add: updateKey_def)
  have c2: "k = ''q'' \<Longrightarrow> ?P"
    by (rule exI [of _ m], rule exI [of _ "[Quit]"]) (simp add: updateKey_def)
  have c3: "k = ''r'' \<Longrightarrow> ?P"
    by (rule exI [of _ "m\<lparr> loading := True \<rparr>"], rule exI [of _ "[LoadData]"])
       (simp add: updateKey_def sameLists_def)
  have c4: "k = ''tab'' \<Longrightarrow> ?P"
    by (rule exI [of _ "if view m = ViewDashboard
                        then m\<lparr> activeTab := go_rem (activeTab m + 1) 2 \<rparr> else m"],
        rule exI [of _ "[]"])
       (simp add: updateKey_def sameLists_def)
  have c5: "k = ''enter'' \<Longrightarrow> ?P"
    using handleEnter_sameLists [of B m] by (auto simp add: updateKey_def)
  have gb: "sameLists (goBack m) m"
    by (simp add: goBack_def sameLists_def split: View.splits)
  have c6: "k = ''h'' \<Longrightarrow> ?P"
    using gb by (intro exI [of _ "goBack m"] exI [of _ "[]"]) (simp add: updateKey_def)
  have c7: "k = ''left'' \<Longrightarrow> ?P"
    using gb by (intro exI [of _ "goBack m"] exI [of _ "[]"]) (simp add: updateKey_def)
  have c8: "k = ''g'' \<Longrightarrow> ?P"
    by (rule exI [of _ m]) (simp add: updateKey_def)
  have c9: "k = ''c'' \<Longrightarrow> ?P"
    by (rule exI [of _ m]) (simp add: updateKey_def)
  have other: "k \<noteq> ''ctrl+c'' \<Longrightarrow> k \<noteq> ''q'' \<Longrightarrow> k \<noteq> ''r'' \<Longrightarrow> k \<noteq> ''tab'' \<Longrightarrow> k \<noteq> ''enter''
      \<Longrightarrow> k \<noteq> ''h'' \<Longrightarrow> k \<noteq> ''left'' \<Longrightarrow> k \<noteq> ''g'' \<Longrightarrow> k \<noteq> ''c'' \<Longrightarrow> ?P"
    by (rule exI [of _ m]) (simp add: updateKey_def)
  show ?P
    using c1 c2 c3 c4 c5 c6 c7 c8 c9 other by argo
qed

lemma updateActive_clock [simp]:
  "autoRefresh (fst (updateActive B msg m)) = autoRefresh m"
  "refreshInterval (fst (updateActive B msg m)) = refreshInterval m"
  by (simp_all add: updateActive_def split: View.splits prod.splits)


text \<open>The two loops of \<open>loadData\<close>, in closed form.\<close>

lemma loadData_PRs_eq:
  "loadData_PRs c pairs allPRs lastErr =
     (allPRs @ succeededPRs c pairs,
      if failedPRs c pairs = [] then lastErr else Some (last (failedPRs c pairs)))"
proof (induction pairs arbitrary: allPRs lastErr)
  case Nil
  show ?case by (simp add: succeededPRs_def failedPRs_def)
next
  case (Cons p pairs)
  show ?case
  proof (cases "GetPullRequests c (PRC_Project p) (PRC_Repository p)")
    case (Inl e)
    then show ?thesis
      using Cons.IH by (simp add: succeededPRs_def failedPRs_def prError_def)
  next
    case (Inr prs)
    then show ?thesis
      using Cons.IH by (simp add: succeededPRs_def failedPRs_def)
  qed
qed

lemma loadData_Builds_eq:
  "loadData_Builds c pairs allBuilds lastErr =
     (allBuilds @ succeededBuilds c pairs,
      if failedBuilds c pairs = [] then lastErr else Some (last (failedBuilds c pairs)))"
proof (induction pairs arbitrary: allBuilds lastErr)
  case Nil
  show ?case by (simp add: succeededBuilds_def failedBuilds_def)
next
  case (Cons p pairs)
  show ?case
  proof (cases "GetBuilds c (PC_Project p) (PC_Pipeline p) (PC_DefinitionID p)")
    case (Inl e)
    then show ?thesis
      using Cons.IH by (simp add: succeededBuilds_def failedBuilds_def buildError_def)
  next
    case (Inr bs)
    then show ?thesis
      using Cons.IH by (simp add: succeededBuilds_def failedBuilds_def)
  qed
qed

lemma loadData_eq:
  "loadData cfg c =
     DataLoadedMsg (succeededPRs c (PullRequests cfg)) (succeededBuilds c (Pipelines cfg))
       (lastOf (failedPRs c (PullRequests cfg) @ failedBuilds c (Pipelines cfg)))"
  by (simp add: loadData_def loadData_PRs_eq loadData_Builds_eq lastOf_def)

section \<open>C1: a full refresh in which some pairs fail\<close>

text \<open>
  Claim C1 says that when k of the N configured pairs fail, the state after the
  completion message shows the data of the N - k pairs that succeeded and records an
  aggregate error naming each of the k failing pairs. The program does neither. With
  three pull-request pairs of which the first and the third fail, the message carries
  the second pair's pull request and the pipeline's build, but its error names the third
  pair only, and applying it to the initial state leaves both lists empty.
\<close>

theorem full_refresh_partial_failure_counterexample:
  "loadData configB clientB =
     DataLoadedMsg [pr1] [build1]
       (Some (Errorf ''failed to load PRs for ProjectA/RepoC: ''
                (ErrorString ''API request failed with status 500: ''))) \<and>
   Update cursorBubbles (1000 * Second) (loadData configB clientB) (NewModel cursorBubbles configB)
     = Inr ((NewModel cursorBubbles configB)
              \<lparr> loading := False, lastUpdate := 1000 * Second,
                err := Some (Errorf ''failed to load PRs for ProjectA/RepoC: ''
                               (ErrorString ''API request failed with status 500: '')) \<rparr>, []) \<and>
   pullRequests (NewModel cursorBubbles configB) = [] \<and>
   builds (NewModel cursorBubbles configB) = []"
  by (simp add: loadData_def configB_def clientB_def Update_def finish_def updateActive_def
        batch_def NewModel_def cursorBubbles_def)

text \<open>
  Claim C1, as the program has it: the completion message of a full refresh carries the
  data of the pairs that succeeded, in configuration order, and as its error the error
  of the last failing pair (pull-request pairs first, then pipeline pairs; no error when
  no pair fails), which names that pair and its cause. Applying a completion message
  that carries an error records the error, clears the loading flag and leaves the
  displayed pull requests and builds as they were; applying one without error replaces
  both lists by the message's.
\<close>

theorem full_refresh_last_error:
  "loadData cfg c =
     DataLoadedMsg (succeededPRs c (PullRequests cfg)) (succeededBuilds c (Pipelines cfg))
       (lastOf (failedPRs c (PullRequests cfg) @ failedBuilds c (Pipelines cfg))) \<and>
   (\<exists>m' cmds. Update B now (DataLoadedMsg prs bs (Some e)) m = Inr (m', cmds) \<and>
      pullRequests m' = pullRequests m \<and> builds m' = builds m \<and>
      err m' = Some e \<and> \<not> loading m') \<and>
   (\<exists>m' cmds. Update B now (DataLoadedMsg prs bs None) m = Inr (m', cmds) \<and>
      pullRequests m' = prs \<and> builds m' = bs \<and> err m' = err m \<and> \<not> loading m')"
  by (simp add: loadData_eq Update_def finish_Inr updateLists_def)

section \<open>C2: from the dashboard to the diff of a file\<close>

text \<open>
  Claim C2 has two halves. The second, that the completion of a diff fetch issued for a
  file selected earlier never overwrites the diff on display, fails: in the file view
  the user asks for \<open>a.go\<close>, moves down and asks for \<open>b.go\<close>; the completion for
  \<open>b.go\<close> arrives and is shown; then the one for \<open>a.go\<close> arrives and replaces it.
\<close>

theorem stale_diff_completion_counterexample:
  "Updates cursorBubbles
     [(1, KeyMsg ''enter''),
      (2, KeyMsg ''down''),
      (3, KeyMsg ''enter''),
      (4, loadFileDiff clientB pr2 ''b.go''),
      (5, loadFileDiff clientB pr2 ''a.go'')]
     (loadedModel\<lparr> view := ViewPRFiles, selectedPR := Some pr2, prFiles := [''a.go'', ''b.go''] \<rparr>)
   = Inr (loadedModel\<lparr> view := ViewFileDiff, selectedPR := Some pr2,
                        prFiles := [''a.go'', ''b.go''], fileList := 1,
                        currentDiff := ''diff --git a/a.go'', currentFilePath := ''a.go'',
                        diffViewport :=
                          \<lparr> Width = 0, Height = 0, vp_state = ''diff --git a/a.go'' \<rparr> \<rparr>,
          [LoadFileDiff pr2 ''a.go'', LoadFileDiff pr2 ''b.go''])"
  by (simp add: Update_def updateKey_def handleEnter_def finish_def updateActive_def batch_def
        loadedModel_def NewModel_def cursorBubbles_def loadFileDiff_def clientB_def len_def
        index_def)

text \<open>
  Claim C2, as the program has it. On the pull-request tab of the dashboard with the
  list widget at index 1, pressing enter, pressing enter again and applying the
  completion of the changed-files fetch reaches the file view with the fetch issued for
  the pull request at index 1; with the file widget at index 0, pressing enter issues
  the diff fetch for the first changed file of that pull request, and applying its
  completion reaches the diff view, which shows the diff and the path of that file.
  A diff completion without error is applied whenever it arrives: whatever the state, it
  switches to the diff view and the diff and path on display become the message's.
\<close>

theorem diff_navigation_scenario:
  assumes "view m0 = ViewDashboard" and "activeTab m0 = 0"
    and "list_Index B (prList m0) = 1" and "index (pullRequests m0) 1 = Inr pr"
    and "loadPRFiles c pr = FilesLoadedMsg files None"
    and "index files 0 = Inr filePath"
    and "GetPRFileDiff c (Project_Name (Repository_Project (PR_Repository pr)))
           (Repository_Name (PR_Repository pr)) (PR_ID pr) filePath = Inr diff"
  shows "(\<exists>m3 cs3.
            Updates B [(t1, KeyMsg ''enter''), (t2, KeyMsg ''enter''), (t3, loadPRFiles c pr)] m0
              = Inr (m3, LoadPRFiles pr # cs3) \<and>
            (list_Index B (fileList m3) = 0 \<longrightarrow>
               (\<exists>m5 cs5.
                  Updates B [(t4, KeyMsg ''enter''), (t5, loadFileDiff c pr filePath)] m3
                    = Inr (m5, LoadFileDiff pr filePath # cs5) \<and>
                  view m5 = ViewFileDiff \<and> selectedPR m5 = Some pr \<and>
                  currentFilePath m5 = filePath \<and> currentDiff m5 = diff))) \<and>
         (\<forall>m diff' filePath'. \<exists>m' cmds.
            Update B now (DiffLoadedMsg diff' filePath' None) m = Inr (m', cmds) \<and>
            view m' = ViewFileDiff \<and> currentDiff m' = diff' \<and> currentFilePath m' = filePath')"
proof (intro conjI allI)
  let ?m1 = "m0\<lparr> selectedPR := Some pr, view := ViewPRDetails \<rparr>"
  let ?m2 = "(updateFileList B (?m1\<lparr> err := None, prFiles := files \<rparr>))\<lparr> view := ViewPRFiles \<rparr>"
  let ?m3 = "fst (updateActive B (FilesLoadedMsg files None) ?m2)"
  let ?c3 = "batch [] (snd (updateActive B (FilesLoadedMsg files None) ?m2))"
  have in_range: "0 \<le> (1::int) \<and> 1 < len (pullRequests m0)"
    using assms(4) by (simp add: index_def len_def split: if_splits)
  have s1: "Update B t1 (KeyMsg ''enter'') m0 = Inr (?m1, [])"
    using assms(1-4) in_range
    by (simp add: Update_def updateKey_def handleEnter_def)
  have s2: "Update B t2 (KeyMsg ''enter'') ?m1 = Inr (?m1, [LoadPRFiles pr])"
    by (simp add: Update_def updateKey_def handleEnter_def)
  have s3: "Update B t3 (FilesLoadedMsg files None) ?m1 = Inr (?m3, ?c3)"
    by (simp add: Update_def finish_Inr)
  have run3: "Updates B [(t1, KeyMsg ''enter''), (t2, KeyMsg ''enter''), (t3, loadPRFiles c pr)] m0
                = Inr (?m3, LoadPRFiles pr # ?c3)"
    using s1 s2 s3 assms(5) by simp
  have m3_view: "view ?m3 = ViewPRFiles" by simp
  have m3_files: "prFiles ?m3 = files" by (simp add: updateFileList_def)
  have m3_pr: "selectedPR ?m3 = Some pr" by (simp add: updateFileList_def)
  have files_range: "0 < len files"
    using assms(6) by (simp add: index_def len_def split: if_splits)
  have s4: "list_Index B (fileList ?m3) = 0 \<Longrightarrow>
              Update B t4 (KeyMsg ''enter'') ?m3 = Inr (?m3, [LoadFileDiff pr filePath])"
    using m3_view m3_files m3_pr files_range assms(6)
    by (simp add: Update_def updateKey_def handleEnter_def)
  have msg5: "loadFileDiff c pr filePath = DiffLoadedMsg diff filePath None"
    using assms(7) by (simp add: loadFileDiff_def)
  obtain m5 cs5 where s5:
    "Update B t5 (DiffLoadedMsg diff filePath None) ?m3 = Inr (m5, cs5)"
    "view m5 = ViewFileDiff" "currentDiff m5 = diff" "currentFilePath m5 = filePath"
    "selectedPR m5 = selectedPR ?m3"
    using Update_DiffLoaded [of B t5 diff filePath ?m3] by blast
  have run5: "list_Index B (fileList ?m3) = 0 \<Longrightarrow>
      Updates B [(t4, KeyMsg ''enter''), (t5, loadFileDiff c pr filePath)] ?m3
        = Inr (m5, LoadFileDiff pr filePath # cs5)"
    using s4 s5(1) msg5 by simp
  have tail: "list_Index B (fileList ?m3) = 0 \<longrightarrow>
               (\<exists>m5 cs5.
                  Updates B [(t4, KeyMsg ''enter''), (t5, loadFileDiff c pr filePath)] ?m3
                    = Inr (m5, LoadFileDiff pr filePath # cs5) \<and>
                  view m5 = ViewFileDiff \<and> selectedPR m5 = Some pr \<and>
                  currentFilePath m5 = filePath \<and> currentDiff m5 = diff)"
  proof
    assume "list_Index B (fileList ?m3) = 0"
    then have "Updates B [(t4, KeyMsg ''enter''), (t5, loadFileDiff c pr filePath)] ?m3
        = Inr (m5, LoadFileDiff pr filePath # cs5)"
      by (rule run5)
    moreover have "selectedPR m5 = Some pr"
      using s5(5) m3_pr by simp
    ultimately show "\<exists>m5 cs5.
        Updates B [(t4, KeyMsg ''enter''), (t5, loadFileDiff c pr filePath)] ?m3
          = Inr (m5, LoadFileDiff pr filePath # cs5) \<and>
        view m5 = ViewFileDiff \<and> selectedPR m5 = Some pr \<and>
        currentFilePath m5 = filePath \<and> currentDiff m5 = diff"
      using s5(2-4) by (intro exI [of _ m5] exI [of _ cs5]) simp
  qed
  show "\<exists>m3 cs3.
            Updates B [(t1, KeyMsg ''enter''), (t2, KeyMsg ''enter''), (t3, loadPRFiles c pr)] m0
              = Inr (m3, LoadPRFiles pr # cs3) \<and>
            (list_Index B (fileList m3) = 0 \<longrightarrow>
               (\<exists>m5 cs5.
                  Updates B [(t4, KeyMsg ''enter''), (t5, loadFileDiff c pr filePath)] m3
                    = Inr (m5, LoadFileDiff pr filePath # cs5) \<and>
                  view m5 = ViewFileDiff \<and> selectedPR m5 = Some pr \<and>
                  currentFilePath m5 = filePath \<and> currentDiff m5 = diff))"
    using run3 tail by (intro exI [of _ ?m3] exI [of _ ?c3] conjI)
next
  fix m diff' filePath'
  show "\<exists>m' cmds.
            Update B now (DiffLoadedMsg diff' filePath' None) m = Inr (m', cmds) \<and>
            view m' = ViewFileDiff \<and> currentDiff m' = diff' \<and> currentFilePath m' = filePath'"
    using Update_DiffLoaded [of B now diff' filePath' m] by blast
qed

text \<open>
  The scenario of the specification, run on the small instance: two pull requests and
  three builds are loaded, the pull request at index 1 is selected and confirmed, and
  the changed file at index 0 is selected.
\<close>

theorem diff_navigation_scenario_witness:
  "\<exists>m5 cs.
     Updates cursorBubbles
       [(1, KeyMsg ''enter''), (2, KeyMsg ''enter''), (3, loadPRFiles clientB pr2),
        (4, KeyMsg ''enter''), (5, loadFileDiff clientB pr2 ''a.go'')]
       (loadedModel\<lparr> prList := 1 \<rparr>)
     = Inr (m5, cs) \<and>
     view m5 = ViewFileDiff \<and> selectedPR m5 = Some pr2 \<and>
     currentFilePath m5 = ''a.go'' \<and> currentDiff m5 = ''diff --git a/a.go''"
proof -
  let ?m0 = "loadedModel\<lparr> prList := 1 \<rparr>"
  have h1: "view ?m0 = ViewDashboard" "activeTab ?m0 = 0"
    "list_Index cursorBubbles (prList ?m0) = 1" "index (pullRequests ?m0) 1 = Inr pr2"
    by (simp_all add: loadedModel_def NewModel_def cursorBubbles_def index_def)
  have h2: "loadPRFiles clientB pr2 = FilesLoadedMsg [''a.go'', ''b.go''] None"
    by (simp add: loadPRFiles_def clientB_def)
  have h3: "index [''a.go'', ''b.go''] 0 = Inr ''a.go''"
    by (simp add: index_def)
  have h4: "GetPRFileDiff clientB (Project_Name (Repository_Project (PR_Repository pr2)))
              (Repository_Name (PR_Repository pr2)) (PR_ID pr2) ''a.go''
            = Inr ''diff --git a/a.go''"
    by (simp add: clientB_def)
  from diff_navigation_scenario [OF h1 h2 h3 h4, of 1 2 3 4 5 0]
  obtain m3 cs3 where
    run3: "Updates cursorBubbles
             [(1, KeyMsg ''enter''), (2, KeyMsg ''enter''), (3, loadPRFiles clientB pr2)] ?m0
           = Inr (m3, LoadPRFiles pr2 # cs3)" and
    rest: "list_Index cursorBubbles (fileList m3) = 0 \<longrightarrow>
             (\<exists>m5 cs5.
                Updates cursorBubbles
                  [(4, KeyMsg ''enter''), (5, loadFileDiff clientB pr2 ''a.go'')] m3
                  = Inr (m5, LoadFileDiff pr2 ''a.go'' # cs5) \<and>
                view m5 = ViewFileDiff \<and> selectedPR m5 = Some pr2 \<and>
                currentFilePath m5 = ''a.go'' \<and> currentDiff m5 = ''diff --git a/a.go'')"
    by blast
  have "Updates cursorBubbles
          [(1, KeyMsg ''enter''), (2, KeyMsg ''enter''), (3, loadPRFiles clientB pr2)] ?m0
        = Inr (?m0\<lparr> selectedPR := Some pr2, view := ViewPRFiles,
                     prFiles := [''a.go'', ''b.go''] \<rparr>, [LoadPRFiles pr2])"
    by (simp add: h2 Update_def updateKey_def handleEnter_def finish_def updateActive_def
          batch_def updateFileList_def loadedModel_def NewModel_def cursorBubbles_def len_def
          index_def)
  with run3 have "fileList m3 = 0"
    by (simp add: loadedModel_def NewModel_def cursorBubbles_def)
  then have "list_Index cursorBubbles (fileList m3) = 0"
    by (simp add: cursorBubbles_def)
  with rest obtain m5 cs5 where
    run5: "Updates cursorBubbles
             [(4, KeyMsg ''enter''), (5, loadFileDiff clientB pr2 ''a.go'')] m3
           = Inr (m5, LoadFileDiff pr2 ''a.go'' # cs5)" and
    fin: "view m5 = ViewFileDiff" "selectedPR m5 = Some pr2"
      "currentFilePath m5 = ''a.go''" "currentDiff m5 = ''diff --git a/a.go''"
    by blast
  have "Updates cursorBubbles
          ([(1, KeyMsg ''enter''), (2, KeyMsg ''enter''), (3, loadPRFiles clientB pr2)]
           @ [(4, KeyMsg ''enter''), (5, loadFileDiff clientB pr2 ''a.go'')]) ?m0
        = Inr (m5, (LoadPRFiles pr2 # cs3) @ (LoadFileDiff pr2 ''a.go'' # cs5))"
    unfolding Updates_append using run3 run5 by simp
  then show ?thesis
    using fin by (intro exI [of _ m5] exI) simp
qed

section \<open>C3: a fetch that fails\<close>

text \<open>
  Claim C3 says that a completion message carrying an error leaves the current view as
  it is, for the changed-files fetch as for the other two. For the changed-files fetch
  the program moves to the file view all the same: from the detail view of a pull
  request, the failed completion lands in the file view.
\<close>

theorem failed_files_fetch_counterexample:
  "view (loadedModel\<lparr> view := ViewPRDetails, selectedPR := Some pr2 \<rparr>) = ViewPRDetails \<and>
   Update cursorBubbles 0 (FilesLoadedMsg [] (Some (ErrorString ''timeout'')))
     (loadedModel\<lparr> view := ViewPRDetails, selectedPR := Some pr2 \<rparr>)
   = Inr (loadedModel\<lparr> view := ViewPRFiles, selectedPR := Some pr2,
                        err := Some (ErrorString ''timeout'') \<rparr>, [])"
  by (simp add: Update_def finish_def updateActive_def batch_def loadedModel_def NewModel_def
        cursorBubbles_def)

text \<open>
  Claim C3, as the program has it: a completion message that carries an error is always
  recorded in the last-error field. For the diff fetch and for the build-log fetch the
  view stays what it was. For the changed-files fetch the view becomes the file view,
  whose frame is the one that prints the error, and the list of changed files stays
  what it was.
\<close>

theorem failed_fetch_completion:
  "(\<exists>m' cmds. Update B now (DiffLoadedMsg diff filePath (Some e)) m = Inr (m', cmds) \<and>
       view m' = view m \<and> err m' = Some e) \<and>
   (\<exists>m' cmds. Update B now (LogsLoadedMsg text (Some e)) m = Inr (m', cmds) \<and>
       view m' = view m \<and> err m' = Some e) \<and>
   (\<exists>m' cmds. Update B now (FilesLoadedMsg files (Some e)) m = Inr (m', cmds) \<and>
       view m' = ViewPRFiles \<and> err m' = Some e \<and> prFiles m' = prFiles m)"
  by (simp add: Update_def finish_Inr)

section \<open>C4: refresh requests while a refresh is outstanding\<close>

text \<open>
  Claim C4 says that a refresh request is ignored while a full refresh is in flight.
  The program has no such check: in a state whose loading flag is set, two presses of
  \<open>r\<close> issue two full refreshes.
\<close>

theorem refresh_coalescing_counterexample:
  "loading (loadedModel\<lparr> loading := True \<rparr>) \<and>
   Updates cursorBubbles [(0, KeyMsg ''r''), (1, KeyMsg ''r'')] (loadedModel\<lparr> loading := True \<rparr>)
     = Inr (loadedModel\<lparr> loading := True \<rparr>, [LoadData, LoadData])"
  by (simp add: Update_def updateKey_def)

text \<open>
  Claim C4, as the program has it: every press of the manual-refresh key sets the
  loading flag and issues one full refresh, whether or not one is outstanding, so two
  presses in a row issue two; and a tick issues a full refresh exactly when auto-refresh
  is on and the time since the last update has reached the interval, whatever the
  loading flag says.
\<close>

theorem refresh_not_coalesced:
  "Update B now (KeyMsg ''r'') m = Inr (m\<lparr> loading := True \<rparr>, [LoadData]) \<and>
   Updates B [(t1, KeyMsg ''r''), (t2, KeyMsg ''r'')] m
     = Inr (m\<lparr> loading := True \<rparr>, [LoadData, LoadData]) \<and>
   (\<exists>m' cmds. Update B now (TickMsg t) (m\<lparr> loading := True \<rparr>) = Inr (m', cmds) \<and>
      (LoadData \<in> set cmds \<longleftrightarrow>
         autoRefresh m \<and> Since now (lastUpdate m) \<ge> refreshInterval m))"
  by (simp add: Update_def updateKey_def finish_Inr)

section \<open>C6: going back\<close>

text \<open>
  Claim C6: in every state, the back key (\<open>h\<close> or the left arrow) leads from the diff
  view to the file view, from the file view to the detail view of the pull request, from
  there to the dashboard, and from the build logs to the dashboard, and each of these
  steps clears the error on display.
\<close>

theorem back_navigation:
  assumes "k = ''h'' \<or> k = ''left''"
  shows "\<exists>m' cmds. Update B now (KeyMsg k) m = Inr (m', cmds) \<and>
     (view m = ViewFileDiff \<longrightarrow> view m' = ViewPRFiles \<and> err m' = None) \<and>
     (view m = ViewPRFiles \<longrightarrow> view m' = ViewPRDetails \<and> err m' = None) \<and>
     (view m = ViewPRDetails \<longrightarrow> view m' = ViewDashboard \<and> err m' = None) \<and>
     (view m = ViewBuildLogs \<longrightarrow> view m' = ViewDashboard \<and> err m' = None)"
  using assms
  by (auto simp add: Update_def updateKey_def finish_Inr goBack_def)

theorem back_navigation_witness:
  "(\<exists>m' cmds.
     Update cursorBubbles 0 (KeyMsg ''left'')
       (loadedModel\<lparr> view := ViewFileDiff, err := Some (ErrorString ''timeout'') \<rparr>)
       = Inr (m', cmds) \<and>
     view m' = ViewPRFiles \<and> err m' = None) \<and>
   (\<exists>m' cmds.
     Update cursorBubbles 0 (KeyMsg ''h'')
       (loadedModel\<lparr> view := ViewPRFiles, err := Some (ErrorString ''timeout'') \<rparr>)
       = Inr (m', cmds) \<and>
     view m' = ViewPRDetails \<and> err m' = None) \<and>
   (\<exists>m' cmds.
     Update cursorBubbles 0 (KeyMsg ''h'')
       (loadedModel\<lparr> view := ViewPRDetails, err := Some (ErrorString ''timeout'') \<rparr>)
       = Inr (m', cmds) \<and>
     view m' = ViewDashboard \<and> err m' = None) \<and>
   (\<exists>m' cmds.
     Update cursorBubbles 0 (KeyMsg ''left'')
       (loadedModel\<lparr> view := ViewBuildLogs, err := Some (ErrorString ''timeout'') \<rparr>)
       = Inr (m', cmds) \<and>
     view m' = ViewDashboard \<and> err m' = None)"
  using
    back_navigation [of "''left''" cursorBubbles 0
      "loadedModel\<lparr> view := ViewFileDiff, err := Some (ErrorString ''timeout'') \<rparr>"]
    back_navigation [of "''h''" cursorBubbles 0
      "loadedModel\<lparr> view := ViewPRFiles, err := Some (ErrorString ''timeout'') \<rparr>"]
    back_navigation [of "''h''" cursorBubbles 0
      "loadedModel\<lparr> view := ViewPRDetails, err := Some (ErrorString ''timeout'') \<rparr>"]
    back_navigation [of "''left''" cursorBubbles 0
      "loadedModel\<lparr> view := ViewBuildLogs, err := Some (ErrorString ''timeout'') \<rparr>"]
  by simp

section \<open>C7: enter with nothing to select\<close>

text \<open>
  Claim C7: when the relevant list is empty or the selection index is out of its
  bounds, the enter key changes nothing and issues no command; and pressing enter never
  panics, in any state.
\<close>

theorem enter_without_selection:
  "(\<exists>r. Update B now (KeyMsg ''enter'') m = Inr r) \<and>
   (nothingSelected B m \<longrightarrow> Update B now (KeyMsg ''enter'') m = Inr (m, []))"
proof
  show "\<exists>r. Update B now (KeyMsg ''enter'') m = Inr r"
    by (rule Update_no_panic)
  show "nothingSelected B m \<longrightarrow> Update B now (KeyMsg ''enter'') m = Inr (m, [])"
    by (auto simp add: Update_def updateKey_def handleEnter_def nothingSelected_def
          outOfBounds_def len_def Let_def split: View.splits if_splits)
qed

theorem enter_without_selection_witness:
  "nothingSelected cursorBubbles (loadedModel\<lparr> prList := 2 \<rparr>) \<and>
   Update cursorBubbles 0 (KeyMsg ''enter'') (loadedModel\<lparr> prList := 2 \<rparr>)
     = Inr (loadedModel\<lparr> prList := 2 \<rparr>, []) \<and>
   nothingSelected cursorBubbles (loadedModel\<lparr> activeTab := 1, builds := [] \<rparr>) \<and>
   Update cursorBubbles 0 (KeyMsg ''enter'') (loadedModel\<lparr> activeTab := 1, builds := [] \<rparr>)
     = Inr (loadedModel\<lparr> activeTab := 1, builds := [] \<rparr>, []) \<and>
   nothingSelected cursorBubbles
     (loadedModel\<lparr> view := ViewPRFiles, selectedPR := Some pr2, prFiles := [''a.go''],
                   fileList := - 1 \<rparr>) \<and>
   Update cursorBubbles 0 (KeyMsg ''enter'')
     (loadedModel\<lparr> view := ViewPRFiles, selectedPR := Some pr2, prFiles := [''a.go''],
                   fileList := - 1 \<rparr>)
     = Inr (loadedModel\<lparr> view := ViewPRFiles, selectedPR := Some pr2, prFiles := [''a.go''],
                         fileList := - 1 \<rparr>, [])"
  using
    enter_without_selection [of cursorBubbles 0 "loadedModel\<lparr> prList := 2 \<rparr>"]
    enter_without_selection [of cursorBubbles 0 "loadedModel\<lparr> activeTab := 1, builds := [] \<rparr>"]
    enter_without_selection [of cursorBubbles 0
      "loadedModel\<lparr> view := ViewPRFiles, selectedPR := Some pr2, prFiles := [''a.go''],
                    fileList := - 1 \<rparr>"]
  by (simp add: nothingSelected_def outOfBounds_def loadedModel_def NewModel_def
        cursorBubbles_def len_def)

section \<open>C8: the diff of a new file\<close>

text \<open>
  Claim C8: for a new file, every content line of the diff is an added line, there are
  as many added lines as the source text has lines, and the empty segment that the
  split leaves after a final newline is dropped. The new-file branch of
  \<open>GetPRFileDiff\<close> emits that segment: for the one-line file \<open>a\<close> it announces two
  lines and adds an empty one. The span walk of the same function drops it, as its
  comment says.
\<close>

theorem new_file_diff_trailing_segment:
  "Client_GetPRFileDiff newFileHttp ''org'' ''ProjectA'' ''RepoA'' 101 ''f.txt'' =
     Inr (''diff --git a/f.txt b/f.txt'' @ [nl] @
          ''new file'' @ [nl] @
          ''--- /dev/null'' @ [nl] @
          ''+++ b/f.txt'' @ [nl] @
          ''@@ -0,0 +1,2 @@'' @ [nl] @
          ''+a'' @ [nl] @
          ''+'' @ [nl]) \<and>
   spanLines DiffInsert (Split (''a'' @ [nl]) nl) = ''+a'' @ [nl]"
  by (simp add: Client_GetPRFileDiff_def newFileHttp_def itemURL_def baseURL_def apiVersion_def
        len_def itoa_def digits_small digitChar_def)

section \<open>C9: when a tick refreshes\<close>

text \<open>
  Claim C9 measures the interval from the last successful refresh. The program measures
  it from the last refresh completion, failed ones included: after a refresh that
  succeeded at 1000 s and one that failed at 1100 s, a tick at 1110 s issues no refresh
  although auto-refresh is on and 110 s, more than the interval of 30 s, have passed
  since the last success.
\<close>

theorem tick_after_failed_refresh_counterexample:
  "autoRefresh loadedModel \<and>
   Since (1110 * Second) (1000 * Second) \<ge> refreshInterval loadedModel \<and>
   Updates cursorBubbles
     [(1000 * Second, DataLoadedMsg [pr1] [build1] None),
      (1100 * Second, DataLoadedMsg [] [] (Some (ErrorString ''timeout''))),
      (1110 * Second, TickMsg (1110 * Second))]
     loadedModel
   = Inr (loadedModel\<lparr> pullRequests := [pr1], builds := [build1],
                        lastUpdate := 1100 * Second,
                        err := Some (ErrorString ''timeout'') \<rparr>, [TickCmd])"
  by (simp add: Update_def finish_def updateActive_def batch_def loadedModel_def NewModel_def
        cursorBubbles_def updateLists_def Since_def Sub_def Second_def wrap64_def configA_def
        maxDuration_def minDuration_def)

text \<open>
  Every message leaves the auto-refresh flag and the interval as they are, and only a
  refresh completion moves the last update.
\<close>

lemma Update_clock:
  "\<exists>m' cmds. Update B now msg m = Inr (m', cmds) \<and>
     lastUpdate m' = lastCompletion [(now, msg)] (lastUpdate m) \<and>
     autoRefresh m' = autoRefresh m \<and> refreshInterval m' = refreshInterval m"
proof (cases msg)
  case (KeyMsg k)
  obtain m1 cmds where m1: "sameLists m1 m"
    and r: "updateKey B k m = Inr (m1, cmds) \<or> updateKey B k m = finish B (KeyMsg k) [] m1"
    using updateKey_sameLists [of m B k] by blast
  from r show ?thesis
  proof
    assume "updateKey B k m = Inr (m1, cmds)"
    with m1 KeyMsg show ?thesis by (simp add: Update_def sameLists_def)
  next
    assume "updateKey B k m = finish B (KeyMsg k) [] m1"
    with m1 KeyMsg show ?thesis by (simp add: Update_def finish_Inr sameLists_def)
  qed
next
  case (DataLoadedMsg prs bs e)
  then show ?thesis
    by (cases e) (simp_all add: Update_def finish_Inr updateLists_def)
next
  case (FilesLoadedMsg files e)
  then show ?thesis
    by (cases e) (simp_all add: Update_def finish_Inr updateFileList_def)
next
  case (DiffLoadedMsg diff filePath e)
  then show ?thesis
    by (cases e) (simp_all add: Update_def finish_Inr)
next
  case (LogsLoadedMsg lg e)
  then show ?thesis
    by (cases e) (simp_all add: Update_def finish_Inr)
next
  case (WindowSizeMsg w h)
  then show ?thesis
    by (simp add: Update_def finish_Inr updateSizes_def Let_def)
next
  case (TickMsg t)
  then show ?thesis
    by (simp add: Update_def finish_Inr)
next
  case (OtherMsg x)
  then show ?thesis
    by (simp add: Update_def finish_Inr)
qed

lemma Updates_clock:
  "\<exists>m' cmds. Updates B msgs m = Inr (m', cmds) \<and>
     lastUpdate m' = lastCompletion msgs (lastUpdate m) \<and>
     autoRefresh m' = autoRefresh m \<and> refreshInterval m' = refreshInterval m"
proof (induction msgs arbitrary: m)
  case Nil
  show ?case by simp
next
  case (Cons a msgs)
  obtain now msg where a: "a = (now, msg)" by (cases a)
  obtain m1 c1 where s1: "Update B now msg m = Inr (m1, c1)"
    and l1: "lastUpdate m1 = lastCompletion [(now, msg)] (lastUpdate m)"
    and a1: "autoRefresh m1 = autoRefresh m" and r1: "refreshInterval m1 = refreshInterval m"
    using Update_clock [of B now msg m] by blast
  obtain m2 c2 where s2: "Updates B msgs m1 = Inr (m2, c2)"
    and l2: "lastUpdate m2 = lastCompletion msgs (lastUpdate m1)"
    and a2: "autoRefresh m2 = autoRefresh m1" and r2: "refreshInterval m2 = refreshInterval m1"
    using Cons.IH [of m1] by blast
  have "Updates B (a # msgs) m = Inr (m2, c1 @ c2)"
    using a s1 s2 by simp
  moreover have "lastUpdate m2 = lastCompletion (a # msgs) (lastUpdate m)"
    using a l1 l2 by simp
  ultimately show ?case
    using a1 a2 r1 r2 by (intro exI [of _ m2] exI [of _ "c1 @ c2"]) simp
qed

text \<open>
  Claim C9, as the program has it: a tick issues a full refresh if and only if
  auto-refresh is on and the time since the last update is at least the refresh
  interval, where the last update is the time at which the latest refresh completion was
  applied, with or without an error. A completion sets the last update to the clock
  reading at which it is applied; no other message changes it, and no message changes
  the auto-refresh flag or the interval; so after any run of messages the last update is
  the time of the latest completion in the run.
\<close>

theorem tick_refresh_condition:
  "(\<exists>m' cmds. Update B now (TickMsg t) m = Inr (m', cmds) \<and>
      (LoadData \<in> set cmds \<longleftrightarrow>
         autoRefresh m \<and> Since now (lastUpdate m) \<ge> refreshInterval m)) \<and>
   (\<exists>m' cmds. Update B now (DataLoadedMsg prs bs e) m = Inr (m', cmds) \<and>
      lastUpdate m' = now) \<and>
   (\<exists>m' cmds. Update B now msg m = Inr (m', cmds) \<and>
      lastUpdate m' = lastCompletion [(now, msg)] (lastUpdate m) \<and>
      autoRefresh m' = autoRefresh m \<and> refreshInterval m' = refreshInterval m) \<and>
   (\<exists>m' cmds. Updates B msgs m = Inr (m', cmds) \<and>
      lastUpdate m' = lastCompletion msgs (lastUpdate m) \<and>
      autoRefresh m' = autoRefresh m \<and> refreshInterval m' = refreshInterval m)"
proof (intro conjI)
  show "\<exists>m' cmds. Update B now (TickMsg t) m = Inr (m', cmds) \<and>
      (LoadData \<in> set cmds \<longleftrightarrow>
         autoRefresh m \<and> Since now (lastUpdate m) \<ge> refreshInterval m)"
    by (simp add: Update_def finish_Inr)
  show "\<exists>m' cmds. Update B now (DataLoadedMsg prs bs e) m = Inr (m', cmds) \<and>
      lastUpdate m' = now"
    by (cases e) (simp_all add: Update_def finish_Inr updateLists_def)
  show "\<exists>m' cmds. Update B now msg m = Inr (m', cmds) \<and>
      lastUpdate m' = lastCompletion [(now, msg)] (lastUpdate m) \<and>
      autoRefresh m' = autoRefresh m \<and> refreshInterval m' = refreshInterval m"
    by (rule Update_clock)
  show "\<exists>m' cmds. Updates B msgs m = Inr (m', cmds) \<and>
      lastUpdate m' = lastCompletion msgs (lastUpdate m) \<and>
      autoRefresh m' = autoRefresh m \<and> refreshInterval m' = refreshInterval m"
    by (rule Updates_clock)
qed

section \<open>C5: the selected index stays inside the list\<close>




text \<open>With the selection in bounds, no key makes \<open>Update\<close> panic.\<close>

lemma updateKey_pl_no_panic:
  assumes "selectionInBounds m"
  shows "\<exists>r. updateKey_pl L k m = Inr r"
proof (cases "k = ''enter''")
  case True
  show ?thesis
  proof (cases "currentView m = pipelineListView \<and> len (pipelines m) > 0")
    case True
    with assms have "0 \<le> selectedIndex m \<and> selectedIndex m < len (pipelines m)"
      by (auto simp add: selectionInBounds_def len_def)
    then have "index (pipelines m) (selectedIndex m) = Inr (pipelines m ! nat (selectedIndex m))"
      by (simp add: index_in_range)
    with True \<open>k = ''enter''\<close> show ?thesis
      by (simp add: updateKey_pl_def)
  next
    case False
    with \<open>k = ''enter''\<close> show ?thesis
      by (auto simp add: updateKey_pl_def)
  qed
next
  case False
  then show ?thesis
    by (cases "selectedPipeline m") (simp_all add: updateKey_pl_def)
qed

text \<open>
  The pull-request dashboard, under the assumption on the list widget: the three
  widgets always show the state's three lists, with their indices in bounds.
\<close>

lemma indexInBounds_map [simp]: "indexInBounds idx (map f xs) = indexInBounds idx xs"
  by (simp add: indexInBounds_def len_def)
















section \<open>C10: what the renderer reads\<close>

text \<open>
  Claim C10 says that rendering a state twice, at different times, gives the same frame,
  and that rendering never consults the clock. The list view prints
  \<open>Pipeline.Duration\<close> for each pipeline, and for a pipeline that has started and
  not finished that is the time from its start to \<open>time.Now()\<close>: the frames of the
  same state at 1005 s and at 1007 s differ.
\<close>

theorem View_clock_counterexample:
  "Pipeline_Duration (1005 * Second) runningPipeline = ''5s'' \<and>
   Pipeline_Duration (1007 * Second) runningPipeline = ''7s'' \<and>
   View_pl plainLipgloss (1005 * Second) runningModel
     \<noteq> View_pl plainLipgloss (1007 * Second) runningModel"
  by (simp add: View_pl_def renderPipelineList_def renderPipelineLine_def runningModel_def
        NewModel_pl_def plainLipgloss_def runningPipeline_def Pipeline_Duration_def Sub_def
        Second_def Minute_def maxDuration_def minDuration_def quot_def itoa_def digits_small
        digitChar_def len_def padRight_def GetStatusStyle_def)

lemma renderPipelineLine_finished:
  "P_StartTime p = None \<or> P_FinishTime p \<noteq> None \<Longrightarrow>
     renderPipelineLine L now1 m i p = renderPipelineLine L now2 m i p"
  by (auto simp add: renderPipelineLine_def Pipeline_Duration_def split: option.splits)

lemma renderPipelineList_finished:
  assumes "list_all (\<lambda>p. P_StartTime p = None \<or> P_FinishTime p \<noteq> None) (pipelines m)"
  shows "renderPipelineList L now1 m = renderPipelineList L now2 m"
proof -
  have "map (\<lambda>(i, pipeline). renderPipelineLine L now1 m (int i) pipeline)
            (zip [0 ..< length (pipelines m)] (pipelines m))
      = map (\<lambda>(i, pipeline). renderPipelineLine L now2 m (int i) pipeline)
            (zip [0 ..< length (pipelines m)] (pipelines m))"
  proof (rule map_cong [OF refl])
    fix x assume x: "x \<in> set (zip [0 ..< length (pipelines m)] (pipelines m))"
    obtain i p where xp: "x = (i, p)" by (cases x)
    from x xp have "p \<in> set (pipelines m)" by (auto dest: set_zip_rightD)
    with assms have "P_StartTime p = None \<or> P_FinishTime p \<noteq> None"
      by (simp add: list_all_iff)
    then show "(case x of (i, pipeline) \<Rightarrow> renderPipelineLine L now1 m (int i) pipeline)
             = (case x of (i, pipeline) \<Rightarrow> renderPipelineLine L now2 m (int i) pipeline)"
      using xp by (simp add: renderPipelineLine_finished)
  qed
  then show ?thesis unfolding renderPipelineList_def by (simp only:)
qed

text \<open>
  Claim C10, as the program has it: the frame is a function of the state and of the
  clock reading, and rendering returns no state. The clock is read only to print the
  running time of a pipeline that has started and not finished; for a state that shows
  an error or the detail view, or whose listed pipelines have all finished or not
  started, the frame is the same at every clock reading.
\<close>

theorem View_clock_free:
  assumes "clockFree m"
  shows "View_pl L now1 m = View_pl L now2 m"
proof (cases "err_pl m")
  case (Some e)
  then show ?thesis by (simp add: View_pl_def)
next
  case None
  show ?thesis
  proof (cases "currentView m")
    case pipelineDetailView
    with None show ?thesis by (simp add: View_pl_def)
  next
    case pipelineListView
    with None assms
    have "list_all (\<lambda>p. P_StartTime p = None \<or> P_FinishTime p \<noteq> None) (pipelines m)"
      by (simp add: clockFree_def)
    then have "renderPipelineList L now1 m = renderPipelineList L now2 m"
      by (rule renderPipelineList_finished)
    then show ?thesis unfolding View_pl_def by (simp only:)
  qed
qed


theorem View_clock_free_witness:
  "clockFree (runningModel\<lparr> pipelines := [runningPipeline\<lparr> P_FinishTime := Some (1003 * Second) \<rparr>] \<rparr>) \<and>
   View_pl plainLipgloss (1005 * Second)
     (runningModel\<lparr> pipelines := [runningPipeline\<lparr> P_FinishTime := Some (1003 * Second) \<rparr>] \<rparr>)
   = View_pl plainLipgloss (1007 * Second)
     (runningModel\<lparr> pipelines := [runningPipeline\<lparr> P_FinishTime := Some (1003 * Second) \<rparr>] \<rparr>)"
  using View_clock_free
          [of "runningModel\<lparr> pipelines := [runningPipeline\<lparr> P_FinishTime := Some (1003 * Second) \<rparr>] \<rparr>"
              plainLipgloss "1005 * Second" "1007 * Second"]
  by (simp add: clockFree_def)

end
